theory Spec2Isabelle
  imports Main
begin

section \<open>Data model\<close>

text \<open>
  The records follow \<^verbatim>\<open>src/types/index.ts\<close> and the shapes of the EC2 client library
  that the analyzers read. A member declared with \<^verbatim>\<open>?\<close> is an \<open>option\<close>; \<open>None\<close> is
  JavaScript's \<^verbatim>\<open>undefined\<close>. Port numbers are integers; counts are natural numbers.
\<close>

datatype Severity = HIGH | MEDIUM | LOW

record SecurityRule =
  rule_id :: string
  rule_name :: string
  description :: string
  severity :: Severity
  port :: "int option"
  protocol :: "string option"
  source :: "string option"
  recommendation :: string

datatype port_value = PortNumber int | PortString string

record AffectedRule =
  ar_port :: port_value
  ar_protocol :: string
  ar_source :: string

record SecurityFinding =
  securityGroupId :: string
  securityGroupName :: string
  ruleId :: string
  f_severity :: Severity
  f_description :: string
  f_recommendation :: string
  affectedRule :: "AffectedRule option"

record SecurityGroupSummary =
  totalGroups :: nat
  highRiskFindings :: nat
  mediumRiskFindings :: nat
  lowRiskFindings :: nat

record SecurityGroupAnalysisResult =
  summary :: SecurityGroupSummary
  findings :: "SecurityFinding list"

record IpRange =
  CidrIp :: "string option"

record Ipv6Range =
  CidrIpv6 :: "string option"

record IpPermission =
  FromPort :: "int option"
  ToPort :: "int option"
  IpProtocol :: "string option"
  IpRanges :: "IpRange list option"
  Ipv6Ranges :: "Ipv6Range list option"

record SecurityGroup =
  GroupId :: "string option"
  GroupName :: "string option"
  IpPermissions :: "IpPermission list option"

record GroupIdentifier =
  gi_GroupId :: "string option"

record InstanceState =
  Name :: "string option"

record Instance =
  InstanceId :: "string option"
  PublicIpAddress :: "string option"
  State :: "InstanceState option"
  SecurityGroups :: "GroupIdentifier list option"

record Reservation =
  Instances :: "Instance list option"

text \<open>
  A rejected request carries the thrown value: an \<^verbatim>\<open>Error\<close> with its message, or
  something that is not an \<^verbatim>\<open>Error\<close>.
\<close>

datatype exn = Error string | NonError

text \<open>
  The EC2 client is the two requests the analyzers send. Each answers with the member of
  the response that the code reads (\<^verbatim>\<open>SecurityGroups\<close>, \<^verbatim>\<open>Reservations\<close>), or rejects.
\<close>

record EC2Client =
  describeSecurityGroups :: "string list option \<Rightarrow> exn + SecurityGroup list option"
  describeInstances :: "exn + Reservation list option"

section \<open>JavaScript helpers\<close>

text \<open>\<^verbatim>\<open>x ?? d\<close>: the default replaces \<^verbatim>\<open>undefined\<close> only.\<close>

definition orElse :: "'a option \<Rightarrow> 'a \<Rightarrow> 'a" where
  "orElse x d = (case x of None \<Rightarrow> d | Some v \<Rightarrow> v)"

text \<open>Truthiness of an optional string: defined and not empty.\<close>

definition truthy :: "string option \<Rightarrow> bool" where
  "truthy s = (case s of None \<Rightarrow> False | Some v \<Rightarrow> v \<noteq> [])"

text \<open>
  A number inside a template literal: the decimal digits of an integer, with a leading
  minus sign when it is negative.
\<close>

fun show_nat :: "nat \<Rightarrow> string" where
  "show_nat n =
     (if n < 10 then [''0123456789'' ! n]
      else show_nat (n div 10) @ [''0123456789'' ! (n mod 10)])"

declare show_nat.simps [simp del]

definition numberToString :: "int \<Rightarrow> string" where
  "numberToString i = (if i < 0 then CHR ''-'' # show_nat (nat (- i)) else show_nat (nat i))"

definition errorMessage :: "exn \<Rightarrow> string" where
  "errorMessage e = (case e of Error m \<Rightarrow> m | NonError \<Rightarrow> ''Unknown error'')"

section \<open>Constants (config/constants.ts)\<close>

definition DANGEROUS_PORTS :: "int list" where
  "DANGEROUS_PORTS = [22, 3389, 3306, 5432, 1433, 6379, 27017, 5984]"

definition PORT_RANGE_THRESHOLD :: int where
  "PORT_RANGE_THRESHOLD = 100"

definition EXPOSED_PORTS_MEDIUM_THRESHOLD :: nat where
  "EXPOSED_PORTS_MEDIUM_THRESHOLD = 5"

section \<open>Rule lookup (config/rules-loader.ts)\<close>

definition getRuleById :: "SecurityRule list \<Rightarrow> string \<Rightarrow> SecurityRule option" where
  "getRuleById rules rid = find (\<lambda>rule. rule_id rule = rid) rules"

section \<open>SecurityGroupAnalyzer\<close>

definition ipv4Public :: "IpPermission \<Rightarrow> bool" where
  "ipv4Public permission =
     (case IpRanges permission of
        None \<Rightarrow> False
      | Some ranges \<Rightarrow> list_ex (\<lambda>range. CidrIp range = Some ''0.0.0.0/0'') ranges)"

definition ipv6Public :: "IpPermission \<Rightarrow> bool" where
  "ipv6Public permission =
     (case Ipv6Ranges permission of
        None \<Rightarrow> False
      | Some ranges \<Rightarrow> list_ex (\<lambda>range. CidrIpv6 range = Some ''::/0'') ranges)"

text \<open>The loop over \<^verbatim>\<open>dangerousRules\<close>, pushing onto \<^verbatim>\<open>findings\<close>.\<close>

fun dangerousLoop ::
  "int option \<Rightarrow> int option \<Rightarrow> string \<Rightarrow> string \<Rightarrow> string \<Rightarrow> string \<Rightarrow>
   SecurityRule list \<Rightarrow> SecurityFinding list \<Rightarrow> SecurityFinding list" where
  "dangerousLoop fromPort toPort proto publicSource sgId sgName [] acc = acc"
| "dangerousLoop fromPort toPort proto publicSource sgId sgName (rule # rest) acc =
     dangerousLoop fromPort toPort proto publicSource sgId sgName rest
       (case (fromPort, toPort, port rule) of
          (Some f, Some t, Some rp) \<Rightarrow>
            if f \<le> rp \<and> rp \<le> t
            then acc @ [\<lparr> securityGroupId = sgId, securityGroupName = sgName,
                         ruleId = rule_id rule, f_severity = severity rule,
                         f_description = description rule,
                         f_recommendation = recommendation rule,
                         affectedRule = Some \<lparr> ar_port = PortNumber rp, ar_protocol = proto,
                                               ar_source = publicSource \<rparr> \<rparr>]
            else acc
        | _ \<Rightarrow> acc)"

definition checkDangerousPorts ::
  "SecurityRule list \<Rightarrow> IpPermission \<Rightarrow> string \<Rightarrow> string \<Rightarrow> SecurityFinding list" where
  "checkDangerousPorts rules permission sgId sgName =
     (let fromPort = FromPort permission;
          toPort = ToPort permission;
          proto = orElse (IpProtocol permission) ''unknown'';
          v4 = ipv4Public permission;
          v6 = ipv6Public permission
      in if \<not> v4 \<and> \<not> v6 then []
         else
           let publicSource = (if v4 then ''0.0.0.0/0'' else ''::/0'');
               dangerousRules =
                 filter (\<lambda>rule. port rule \<noteq> None \<and> source rule = Some ''0.0.0.0/0''
                                 \<and> protocol rule = Some proto) rules
           in dangerousLoop fromPort toPort proto publicSource sgId sgName dangerousRules [])"

text \<open>\<^verbatim>\<open>permission.IpRanges?.[0]?.CidrIp\<close> and its IPv6 twin.\<close>

definition firstCidrIp :: "IpPermission \<Rightarrow> string option" where
  "firstCidrIp permission =
     (case IpRanges permission of
        None \<Rightarrow> None
      | Some [] \<Rightarrow> None
      | Some (r # _) \<Rightarrow> CidrIp r)"

definition firstCidrIpv6 :: "IpPermission \<Rightarrow> string option" where
  "firstCidrIpv6 permission =
     (case Ipv6Ranges permission of
        None \<Rightarrow> None
      | Some [] \<Rightarrow> None
      | Some (r # _) \<Rightarrow> CidrIpv6 r)"

definition checkWidePortRanges ::
  "SecurityRule list \<Rightarrow> IpPermission \<Rightarrow> string \<Rightarrow> string \<Rightarrow> SecurityFinding list" where
  "checkWidePortRanges rules permission sgId sgName =
     (case (FromPort permission, ToPort permission) of
        (Some fromPort, Some toPort) \<Rightarrow>
          let portRange = toPort - fromPort
          in if portRange > PORT_RANGE_THRESHOLD
             then (case getRuleById rules ''sg-wide-port-range'' of
                     None \<Rightarrow> []
                   | Some wideRangeRule \<Rightarrow>
                       let ipv4Source = firstCidrIp permission;
                           ipv6Source = firstCidrIpv6 permission;
                           src = orElse ipv4Source (orElse ipv6Source ''unknown'')
                       in [\<lparr> securityGroupId = sgId, securityGroupName = sgName,
                             ruleId = rule_id wideRangeRule,
                             f_severity = severity wideRangeRule,
                             f_description =
                               description wideRangeRule @ '' ('' @ numberToString fromPort
                                 @ ''-'' @ numberToString toPort @ '')'',
                             f_recommendation = recommendation wideRangeRule,
                             affectedRule =
                               Some \<lparr> ar_port = PortString (numberToString fromPort @ ''-''
                                                              @ numberToString toPort),
                                      ar_protocol = orElse (IpProtocol permission) ''unknown'',
                                      ar_source = src \<rparr> \<rparr>])
             else []
      | _ \<Rightarrow> [])"

definition checkAllTrafficRules ::
  "SecurityRule list \<Rightarrow> IpPermission \<Rightarrow> string \<Rightarrow> string \<Rightarrow> SecurityFinding list" where
  "checkAllTrafficRules rules permission sgId sgName =
     (if IpProtocol permission = Some ''-1''
      then
        let v4 = ipv4Public permission;
            v6 = ipv6Public permission
        in if v4 \<or> v6
           then (case getRuleById rules ''sg-all-traffic'' of
                   None \<Rightarrow> []
                 | Some allTrafficRule \<Rightarrow>
                     [\<lparr> securityGroupId = sgId, securityGroupName = sgName,
                        ruleId = rule_id allTrafficRule,
                        f_severity = severity allTrafficRule,
                        f_description = description allTrafficRule,
                        f_recommendation = recommendation allTrafficRule,
                        affectedRule =
                          Some \<lparr> ar_port = PortString ''all'', ar_protocol = ''all'',
                                 ar_source = (if v4 then ''0.0.0.0/0'' else ''::/0'') \<rparr> \<rparr>])
           else []
      else [])"

text \<open>The body of the loop over \<^verbatim>\<open>sg.IpPermissions\<close>: the three checks, in order.\<close>

definition permissionFindings ::
  "SecurityRule list \<Rightarrow> IpPermission \<Rightarrow> string \<Rightarrow> string \<Rightarrow> SecurityFinding list" where
  "permissionFindings rules permission sgId sgName =
     checkDangerousPorts rules permission sgId sgName
     @ checkWidePortRanges rules permission sgId sgName
     @ checkAllTrafficRules rules permission sgId sgName"

definition analyzeSecurityGroup :: "SecurityRule list \<Rightarrow> SecurityGroup \<Rightarrow> SecurityFinding list" where
  "analyzeSecurityGroup rules sg =
     (let sgId = orElse (GroupId sg) ''unknown'';
          sgName = orElse (GroupName sg) ''unknown''
      in (case IpPermissions sg of
            None \<Rightarrow> []
          | Some permissions \<Rightarrow>
              concat (map (\<lambda>permission. permissionFindings rules permission sgId sgName)
                          permissions)))"

text \<open>
  The set \<^verbatim>\<open>usedSecurityGroups\<close>: every truthy group id attached to an instance of a
  reservation.
\<close>

definition instanceGroupIds :: "Instance \<Rightarrow> string list" where
  "instanceGroupIds instance =
     concat (map (\<lambda>sg. if truthy (gi_GroupId sg) then [the (gi_GroupId sg)] else [])
                 (orElse (SecurityGroups instance) []))"

definition usedSecurityGroups :: "Reservation list option \<Rightarrow> string set" where
  "usedSecurityGroups reservations =
     set (concat (map (\<lambda>reservation.
                         concat (map instanceGroupIds (orElse (Instances reservation) [])))
                      (orElse reservations [])))"

definition unusedFinding :: "SecurityRule \<Rightarrow> SecurityGroup \<Rightarrow> SecurityFinding" where
  "unusedFinding unusedRule sg =
     \<lparr> securityGroupId = the (GroupId sg),
       securityGroupName = orElse (GroupName sg) ''unknown'',
       ruleId = rule_id unusedRule,
       f_severity = severity unusedRule,
       f_description = description unusedRule,
       f_recommendation = recommendation unusedRule,
       affectedRule = None \<rparr>"

fun unusedLoop ::
  "SecurityRule \<Rightarrow> string set \<Rightarrow> SecurityGroup list \<Rightarrow> SecurityFinding list \<Rightarrow>
   SecurityFinding list" where
  "unusedLoop unusedRule used [] acc = acc"
| "unusedLoop unusedRule used (sg # rest) acc =
     unusedLoop unusedRule used rest
       (if truthy (GroupId sg) \<and> the (GroupId sg) \<notin> used \<and> GroupName sg \<noteq> Some ''default''
        then acc @ [unusedFinding unusedRule sg]
        else acc)"

definition findUnusedSecurityGroups ::
  "SecurityRule list \<Rightarrow> EC2Client \<Rightarrow> SecurityGroup list \<Rightarrow> exn + SecurityFinding list" where
  "findUnusedSecurityGroups rules ec2Client securityGroups =
     (case describeInstances ec2Client of
        Inl e \<Rightarrow> Inl e
      | Inr reservations \<Rightarrow>
          let used = usedSecurityGroups reservations
          in (case getRuleById rules ''sg-unused'' of
                None \<Rightarrow> Inr []
              | Some unusedRule \<Rightarrow> Inr (unusedLoop unusedRule used securityGroups [])))"

definition generateSummary :: "SecurityFinding list \<Rightarrow> nat \<Rightarrow> SecurityGroupSummary" where
  "generateSummary fs groupCount =
     \<lparr> totalGroups = groupCount,
       highRiskFindings = length (filter (\<lambda>f. f_severity f = HIGH) fs),
       mediumRiskFindings = length (filter (\<lambda>f. f_severity f = MEDIUM) fs),
       lowRiskFindings = length (filter (\<lambda>f. f_severity f = LOW) fs) \<rparr>"

definition analyzeFailed :: "exn \<Rightarrow> exn" where
  "analyzeFailed e = Error (''Security group analysis failed: '' @ errorMessage e)"

definition SecurityGroupAnalyzer_analyze ::
  "SecurityRule list \<Rightarrow> EC2Client \<Rightarrow> string list option \<Rightarrow> exn + SecurityGroupAnalysisResult" where
  "SecurityGroupAnalyzer_analyze rules ec2Client groupIds =
     (case describeSecurityGroups ec2Client groupIds of
        Inl e \<Rightarrow> Inl (analyzeFailed e)
      | Inr response \<Rightarrow>
          let securityGroups = orElse response [];
              perGroup = concat (map (analyzeSecurityGroup rules) securityGroups)
          in (case findUnusedSecurityGroups rules ec2Client securityGroups of
                Inl e \<Rightarrow> Inl (analyzeFailed e)
              | Inr unusedFindings \<Rightarrow>
                  Inr \<lparr> summary = generateSummary (perGroup @ unusedFindings)
                                                  (length securityGroups),
                        findings = perGroup @ unusedFindings \<rparr>))"

section \<open>PublicInstanceAnalyzer\<close>

record PublicInstanceInfo =
  instanceId :: string
  publicIp :: string
  securityGroups :: "string list"
  exposedPorts :: "int list"
  riskLevel :: Severity
  recommendations :: "string list"

record PublicInstanceSummary =
  totalInstances :: nat
  publicInstances :: nat
  totalExposedPorts :: nat

record PublicInstanceAnalysisResult =
  pi_summary :: PublicInstanceSummary
  instances :: "PublicInstanceInfo list"

text \<open>
  The loop \<^verbatim>\<open>for (let port = FromPort; port <= ToPort; port++)\<close>, pushing each port
  that \<^verbatim>\<open>exposedPorts\<close> does not include yet.
\<close>

function addPortRange :: "int \<Rightarrow> int \<Rightarrow> int list \<Rightarrow> int list" where
  "addPortRange portNo toPort ports =
     (if portNo \<le> toPort
      then addPortRange (portNo + 1) toPort
             (if List.member ports portNo then ports else ports @ [portNo])
      else ports)"
  by pat_completeness auto
termination
  by (relation "measure (\<lambda>(portNo, toPort, ports). nat (toPort + 1 - portNo))") auto

declare addPortRange.simps [simp del]

definition addPermissionPorts :: "IpPermission \<Rightarrow> int list \<Rightarrow> int list" where
  "addPermissionPorts permission ports =
     (if ipv4Public permission \<or> ipv6Public permission
      then (case (FromPort permission, ToPort permission) of
              (Some fromPort, Some toPort) \<Rightarrow> addPortRange fromPort toPort ports
            | _ \<Rightarrow> ports)
      else ports)"

definition addGroupPorts :: "SecurityGroup \<Rightarrow> int list \<Rightarrow> int list" where
  "addGroupPorts sg ports = fold addPermissionPorts (orElse (IpPermissions sg) []) ports"

text \<open>
  \<^verbatim>\<open>exposedPorts.sort((a, b) => a - b)\<close> orders integers ascending; \<open>sort\<close> is the
  ascending sort of the list library.
\<close>

definition getExposedPorts :: "EC2Client \<Rightarrow> string list \<Rightarrow> exn + int list" where
  "getExposedPorts ec2Client securityGroupIds =
     (if length securityGroupIds = 0 then Inr []
      else (case describeSecurityGroups ec2Client (Some securityGroupIds) of
              Inl e \<Rightarrow> Inl e
            | Inr response \<Rightarrow> Inr (sort (fold addGroupPorts (orElse response []) []))))"

definition assessRisk :: "int list \<Rightarrow> Severity" where
  "assessRisk ports =
     (let hasDangerousPorts = list_ex (\<lambda>port. List.member DANGEROUS_PORTS port) ports
      in if hasDangerousPorts then HIGH
         else if length ports > EXPOSED_PORTS_MEDIUM_THRESHOLD then MEDIUM
         else LOW)"

fun joinStrings :: "string \<Rightarrow> string list \<Rightarrow> string" where
  "joinStrings sep [] = []"
| "joinStrings sep [x] = x"
| "joinStrings sep (x # y # ys) = x @ sep @ joinStrings sep (y # ys)"

definition PublicInstanceAnalyzer_generateRecommendations :: "int list \<Rightarrow> string list" where
  "PublicInstanceAnalyzer_generateRecommendations ports =
     (let exposedDangerousPorts = filter (\<lambda>port. List.member DANGEROUS_PORTS port) ports
      in (if length exposedDangerousPorts > 0
          then [''Restrict access to dangerous ports: ''
                  @ joinStrings '', '' (map numberToString exposedDangerousPorts)]
          else [])
       @ (if length ports > EXPOSED_PORTS_MEDIUM_THRESHOLD
          then [''Consider reducing the number of exposed ports'']
          else [])
       @ (if length ports > 0
          then [''Use Application Load Balancer or NAT Gateway for controlled access'',
                ''Consider moving to private subnet with VPN access'']
          else []))"

definition isRunning :: "Instance \<Rightarrow> bool" where
  "isRunning instance =
     (case State instance of None \<Rightarrow> False | Some st \<Rightarrow> Name st = Some ''running'')"

text \<open>The loop over \<^verbatim>\<open>allInstances\<close>; a rejected request ends it.\<close>

fun instancesLoop ::
  "EC2Client \<Rightarrow> Instance list \<Rightarrow> PublicInstanceInfo list \<Rightarrow> exn + PublicInstanceInfo list" where
  "instancesLoop ec2Client [] acc = Inr acc"
| "instancesLoop ec2Client (instance # rest) acc =
     (if truthy (PublicIpAddress instance) \<and> isRunning instance
      then
        (let securityGroupIds = instanceGroupIds instance
         in case getExposedPorts ec2Client securityGroupIds of
              Inl e \<Rightarrow> Inl e
            | Inr ports \<Rightarrow>
                instancesLoop ec2Client rest
                  (acc @ [\<lparr> instanceId = orElse (InstanceId instance) ''unknown'',
                             publicIp = the (PublicIpAddress instance),
                             securityGroups = securityGroupIds,
                             exposedPorts = ports,
                             riskLevel = assessRisk ports,
                             recommendations =
                               PublicInstanceAnalyzer_generateRecommendations ports \<rparr>]))
      else instancesLoop ec2Client rest acc)"

definition allInstancesOf :: "Reservation list option \<Rightarrow> Instance list" where
  "allInstancesOf reservations =
     concat (map (\<lambda>reservation. orElse (Instances reservation) []) (orElse reservations []))"

definition publicAnalysisFailed :: "exn \<Rightarrow> exn" where
  "publicAnalysisFailed e = Error (''Public instance analysis failed: '' @ errorMessage e)"

definition PublicInstanceAnalyzer_analyze ::
  "EC2Client \<Rightarrow> exn + PublicInstanceAnalysisResult" where
  "PublicInstanceAnalyzer_analyze ec2Client =
     (case describeInstances ec2Client of
        Inl e \<Rightarrow> Inl (publicAnalysisFailed e)
      | Inr reservations \<Rightarrow>
          let allInstances = allInstancesOf reservations
          in (case instancesLoop ec2Client allInstances [] of
                Inl e \<Rightarrow> Inl (publicAnalysisFailed e)
              | Inr infos \<Rightarrow>
                  Inr \<lparr> pi_summary =
                          \<lparr> totalInstances = length allInstances,
                            publicInstances = length infos,
                            totalExposedPorts =
                              foldl (\<lambda>total i. total + length (exposedPorts i)) 0 infos \<rparr>,
                        instances = infos \<rparr>))"

section \<open>Rule loading (config/rules-loader.ts)\<close>

text \<open>
  The file system and the JSON parser are the environment of the loader. A file is
  missing, present but unreadable (\<^verbatim>\<open>readFileSync\<close> throws), or has contents.
  \<^verbatim>\<open>JSON.parse\<close> throws a syntax error on unparsable text; otherwise the loader reads
  the member \<^verbatim>\<open>rules\<close> of the parsed value, which throws on \<^verbatim>\<open>null\<close> and is
  \<^verbatim>\<open>undefined\<close> when the value has no such member.
\<close>

datatype file_state = Missing | Unreadable | Contents string

datatype json_result = SyntaxError | JsonNull | JsonValue "SecurityRule list option"

record LoaderEnv =
  files :: "string \<Rightarrow> file_state"
  parseJson :: "string \<Rightarrow> json_result"
  DEFAULT_RULES_PATH :: string

text \<open>\<^verbatim>\<open>fs.existsSync\<close> never throws and is false for the empty path.\<close>

definition existsSync :: "LoaderEnv \<Rightarrow> string \<Rightarrow> bool" where
  "existsSync env path = (path \<noteq> [] \<and> files env path \<noteq> Missing)"

definition readFileSync :: "LoaderEnv \<Rightarrow> string \<Rightarrow> exn + string" where
  "readFileSync env path =
     (case files env path of
        Contents text \<Rightarrow> Inr text
      | _ \<Rightarrow> Inl (Error ''cannot read file''))"

text \<open>
  The \<^verbatim>\<open>try\<close> block: \<open>Inl\<close> is an exception on its way to the \<^verbatim>\<open>catch\<close>, \<open>Inr\<close> the
  returned value with the cache as the block leaves it.
\<close>

definition loadSecurityRules_try ::
  "LoaderEnv \<Rightarrow> SecurityRule list option \<Rightarrow> string option \<Rightarrow> string \<Rightarrow>
   exn + (SecurityRule list option \<times> SecurityRule list option)" where
  "loadSecurityRules_try env cachedRules customPath rulePath =
     (if \<not> existsSync env rulePath then Inr (Some [], cachedRules)
      else (case readFileSync env rulePath of
              Inl e \<Rightarrow> Inl e
            | Inr rulesData \<Rightarrow>
                (case parseJson env rulesData of
                   SyntaxError \<Rightarrow> Inl (Error ''SyntaxError'')
                 | JsonNull \<Rightarrow> Inl (Error ''TypeError'')
                 | JsonValue configRules \<Rightarrow>
                     Inr (configRules,
                          if \<not> truthy customPath then configRules else cachedRules))))"

text \<open>
  The loader takes the cache and returns it with the result. The result is \<open>Inl\<close> when
  the call throws, \<open>Inr\<close> the returned value otherwise (\<open>None\<close> for \<^verbatim>\<open>undefined\<close>).
\<close>

definition loadSecurityRules ::
  "LoaderEnv \<Rightarrow> SecurityRule list option \<Rightarrow> string option \<Rightarrow>
   (exn + SecurityRule list option) \<times> SecurityRule list option" where
  "loadSecurityRules env cachedRules customPath =
     (if cachedRules \<noteq> None \<and> \<not> truthy customPath then (Inr cachedRules, cachedRules)
      else
        let rulePath = orElse customPath (DEFAULT_RULES_PATH env)
        in (case loadSecurityRules_try env cachedRules customPath rulePath of
              Inl e \<Rightarrow> (Inr (Some []), cachedRules)
            | Inr (rules, cache) \<Rightarrow> (Inr rules, cache)))"



section \<open>SecurityGroupTool (tools/security-groups.ts)\<close>

text \<open>
  The tool takes an input of unknown shape. Of an object it reads three members; a
  member that is absent is \<open>JUndefined\<close>.
\<close>

datatype jsval = JUndefined | JNull | JBool bool | JNumber int | JString string | JArray "jsval list"

record ToolInput =
  region :: jsval
  groupIds :: jsval
  includeUnused :: jsval

datatype unknown_input = NotAnObject jsval | Object ToolInput

record SecurityGroupAnalysisInput =
  v_region :: "string option"
  v_groupIds :: "string list option"
  v_includeUnused :: bool

text \<open>\<^verbatim>\<open>z.string().optional()\<close>\<close>

definition parseOptionalString :: "jsval \<Rightarrow> string option option" where
  "parseOptionalString v =
     (case v of JUndefined \<Rightarrow> Some None | JString s \<Rightarrow> Some (Some s) | _ \<Rightarrow> None)"

fun parseStrings :: "jsval list \<Rightarrow> string list option" where
  "parseStrings [] = Some []"
| "parseStrings (JString s # rest) = map_option ((#) s) (parseStrings rest)"
| "parseStrings (_ # rest) = None"

text \<open>\<^verbatim>\<open>z.array(z.string()).optional()\<close>\<close>

definition parseOptionalStringArray :: "jsval \<Rightarrow> string list option option" where
  "parseOptionalStringArray v =
     (case v of
        JUndefined \<Rightarrow> Some None
      | JArray items \<Rightarrow> map_option Some (parseStrings items)
      | _ \<Rightarrow> None)"

text \<open>\<^verbatim>\<open>z.boolean().optional().default(true)\<close>\<close>

definition parseBooleanDefaultTrue :: "jsval \<Rightarrow> bool option" where
  "parseBooleanDefaultTrue v =
     (case v of JUndefined \<Rightarrow> Some True | JBool b \<Rightarrow> Some b | _ \<Rightarrow> None)"

text \<open>
  \<^verbatim>\<open>SecurityGroupAnalysisSchema.parse\<close>: \<open>Inl\<close> when the validation library throws,
  with the messages of its issues. The library words them; \<open>msgs\<close> gives the messages
  for an offending value under a key (the empty key for an input that is no object).
  A valid member raises no issue.
\<close>

definition SecurityGroupAnalysisSchema_parse ::
  "(string \<Rightarrow> jsval \<Rightarrow> string list) \<Rightarrow> unknown_input \<Rightarrow>
   string list + SecurityGroupAnalysisInput" where
  "SecurityGroupAnalysisSchema_parse msgs input =
     (case input of
        NotAnObject v \<Rightarrow> Inl (msgs [] v)
      | Object obj \<Rightarrow>
          (case (parseOptionalString (region obj), parseOptionalStringArray (groupIds obj),
                 parseBooleanDefaultTrue (includeUnused obj)) of
             (Some r, Some g, Some u) \<Rightarrow>
               Inr \<lparr> v_region = r, v_groupIds = g, v_includeUnused = u \<rparr>
           | (r, g, u) \<Rightarrow>
               Inl ((if r = None then msgs ''region'' (region obj) else [])
                    @ (if g = None then msgs ''groupIds'' (groupIds obj) else [])
                    @ (if u = None then msgs ''includeUnused'' (includeUnused obj) else []))))"

record AWSClientService =
  getEC2Client :: EC2Client
  getRegion :: string

text \<open>
  What the tool is built from and runs in: the client service, the rules of its
  analyzer, the reading of the clock, and the text the validation library gives for a
  rejected input.
\<close>

record SecurityGroupToolDependencies =
  awsClient :: AWSClientService
  analyzer :: "SecurityRule list"
  now :: string
  issueMessages :: "string \<Rightarrow> jsval \<Rightarrow> string list"

record RiskDistribution =
  high :: nat
  medium :: nat
  low :: nat

record ToolSummary = SecurityGroupSummary +
  riskDistribution :: RiskDistribution

record SecurityGroupToolOutput =
  analysisType :: string
  out_region :: string
  timestamp :: string
  out_summary :: ToolSummary
  out_findings :: "SecurityFinding list"
  out_recommendations :: "string list"

definition SecurityGroupTool_generateRecommendations :: "SecurityFinding list \<Rightarrow> string list" where
  "SecurityGroupTool_generateRecommendations fs =
     (let highRiskCount = length (filter (\<lambda>f. f_severity f = HIGH) fs);
          mediumRiskCount = length (filter (\<lambda>f. f_severity f = MEDIUM) fs)
      in (if highRiskCount > 0
          then [''Address '' @ show_nat highRiskCount @ '' HIGH severity findings immediately'',
                ''Implement principle of least privilege for security group rules'',
                ''Use specific IP ranges instead of 0.0.0.0/0 where possible'']
          else [])
       @ (if mediumRiskCount > 0
          then [''Review '' @ show_nat mediumRiskCount @ '' MEDIUM severity findings'',
                ''Consider implementing a security group naming convention'']
          else [])
       @ [''Regular security group audits should be performed'',
          ''Consider using AWS Config for continuous compliance monitoring'',
          ''Implement Infrastructure as Code (IaC) for consistent security group management''])"

definition execute ::
  "SecurityGroupToolDependencies \<Rightarrow> unknown_input \<Rightarrow> exn + SecurityGroupToolOutput" where
  "execute deps input =
     (case SecurityGroupAnalysisSchema_parse (issueMessages deps) input of
        Inl issues \<Rightarrow>
          Inl (Error (''Input validation failed: '' @ joinStrings '', '' issues))
      | Inr validatedInput \<Rightarrow>
          let ec2Client = getEC2Client (awsClient deps);
              outRegion = orElse (v_region validatedInput) (getRegion (awsClient deps))
          in (case SecurityGroupAnalyzer_analyze (analyzer deps) ec2Client
                     (v_groupIds validatedInput) of
                Inl e \<Rightarrow>
                  (case e of
                     Error m \<Rightarrow> Inl (Error (''Security group analysis failed: '' @ m))
                   | NonError \<Rightarrow>
                       Inl (Error ''An unexpected error occurred during security group analysis''))
              | Inr analysisResult \<Rightarrow>
                  Inr \<lparr> analysisType = ''security-group'',
                        out_region = outRegion,
                        timestamp = now deps,
                        out_summary =
                          SecurityGroupSummary.extend (summary analysisResult)
                            (ToolSummary.fields
                               \<lparr> high = highRiskFindings (summary analysisResult),
                                 medium = mediumRiskFindings (summary analysisResult),
                                 low = lowRiskFindings (summary analysisResult) \<rparr>),
                        out_findings = findings analysisResult,
                        out_recommendations =
                          SecurityGroupTool_generateRecommendations
                            (findings analysisResult) \<rparr>))"

section \<open>Fixtures of the test suite\<close>

text \<open>The catalog \<^verbatim>\<open>mockRules\<close> of \<^verbatim>\<open>security-group-analyzer.test.ts\<close>.\<close>

definition mockRules :: "SecurityRule list" where
  "mockRules =
     [\<lparr> rule_id = ''sg-ssh-world'', rule_name = ''SSH Open to World'',
        description = ''SSH port 22 is accessible from anywhere'', severity = HIGH,
        port = Some 22, protocol = Some ''tcp'', source = Some ''0.0.0.0/0'',
        recommendation = ''Restrict SSH access'' \<rparr>,
      \<lparr> rule_id = ''sg-wide-port-range'', rule_name = ''Wide Port Range'',
        description = ''Wide port range'', severity = MEDIUM,
        port = None, protocol = None, source = None,
        recommendation = ''Restrict ports'' \<rparr>,
      \<lparr> rule_id = ''sg-unused'', rule_name = ''Unused Security Group'',
        description = ''Security group is not attached'', severity = LOW,
        port = None, protocol = None, source = None,
        recommendation = ''Remove unused'' \<rparr>,
      \<lparr> rule_id = ''sg-all-traffic'', rule_name = ''All Traffic Allowed'',
        description = ''All traffic allowed'', severity = HIGH,
        port = None, protocol = None, source = None,
        recommendation = ''Restrict traffic'' \<rparr>]"

text \<open>The permission of the test "wide port range": ports 1000 to 2000 from 10.0.0.0/8.\<close>

definition widePermission :: IpPermission where
  "widePermission =
     \<lparr> FromPort = Some 1000, ToPort = Some 2000, IpProtocol = Some ''tcp'',
       IpRanges = Some [\<lparr> CidrIp = Some ''10.0.0.0/8'' \<rparr>], Ipv6Ranges = None \<rparr>"

text \<open>A permission open to the world over IPv6 on ports 20 to 25.\<close>

definition openPermission :: IpPermission where
  "openPermission =
     \<lparr> FromPort = Some 20, ToPort = Some 25, IpProtocol = Some ''tcp'',
       IpRanges = Some [\<lparr> CidrIp = Some ''10.0.0.0/8'' \<rparr>],
       Ipv6Ranges = Some [\<lparr> CidrIpv6 = Some ''::/0'' \<rparr>] \<rparr>"

text \<open>All protocols, all ports, open to the world over IPv4.\<close>

definition allTrafficPermission :: IpPermission where
  "allTrafficPermission =
     \<lparr> FromPort = Some 0, ToPort = Some 65535, IpProtocol = Some ''-1'',
       IpRanges = Some [\<lparr> CidrIp = Some ''0.0.0.0/0'' \<rparr>], Ipv6Ranges = None \<rparr>"

text \<open>A second rule for port 22, and a catalog that holds only point rules.\<close>

definition sshRule2 :: SecurityRule where
  "sshRule2 =
     \<lparr> rule_id = ''sg-ssh-audit'', rule_name = ''SSH audit'',
       description = ''SSH reachable'', severity = MEDIUM,
       port = Some 22, protocol = Some ''tcp'', source = Some ''0.0.0.0/0'',
       recommendation = ''Use a bastion host'' \<rparr>"

definition pointRules :: "SecurityRule list" where
  "pointRules = [hd mockRules, sshRule2]"

text \<open>A catalog whose unused-group rule is of MEDIUM severity.\<close>

definition mediumUnusedRules :: "SecurityRule list" where
  "mediumUnusedRules =
     [\<lparr> rule_id = ''sg-unused'', rule_name = ''Unused Security Group'',
        description = ''Security group is not attached'', severity = MEDIUM,
        port = None, protocol = None, source = None,
        recommendation = ''Remove unused'' \<rparr>]"

text \<open>Groups: one without an id, one with an empty id, an ordinary one, the default one.\<close>

definition groupNoId :: SecurityGroup where
  "groupNoId = \<lparr> GroupId = None, GroupName = Some ''web'', IpPermissions = Some [] \<rparr>"

definition groupEmptyId :: SecurityGroup where
  "groupEmptyId = \<lparr> GroupId = Some [], GroupName = Some ''cache'', IpPermissions = Some [] \<rparr>"

definition groupDb :: SecurityGroup where
  "groupDb = \<lparr> GroupId = Some ''sg-2'', GroupName = Some ''db'', IpPermissions = Some [] \<rparr>"

definition groupDefault :: SecurityGroup where
  "groupDefault =
     \<lparr> GroupId = Some ''sg-x'', GroupName = Some ''default'', IpPermissions = Some [] \<rparr>"

definition groupAttached :: SecurityGroup where
  "groupAttached =
     \<lparr> GroupId = Some ''sg-1'', GroupName = Some ''test-sg'',
       IpPermissions = Some [openPermission] \<rparr>"

text \<open>
  A client with two instances attached to \<^verbatim>\<open>sg-1\<close>, both with a public address,
  one running and one stopped; every group request returns the groups given.
\<close>

definition runningInstance :: Instance where
  "runningInstance =
     \<lparr> InstanceId = Some ''i-running'', PublicIpAddress = Some ''1.1.1.1'',
       State = Some \<lparr> Name = Some ''running'' \<rparr>,
       SecurityGroups = Some [\<lparr> gi_GroupId = Some ''sg-1'' \<rparr>] \<rparr>"

definition stoppedInstance :: Instance where
  "stoppedInstance =
     \<lparr> InstanceId = Some ''i-stopped'', PublicIpAddress = Some ''2.2.2.2'',
       State = Some \<lparr> Name = Some ''stopped'' \<rparr>,
       SecurityGroups = Some [\<lparr> gi_GroupId = Some ''sg-1'' \<rparr>] \<rparr>"

definition clientOf :: "SecurityGroup list \<Rightarrow> EC2Client" where
  "clientOf groups =
     \<lparr> describeSecurityGroups = (\<lambda>ids. Inr (Some groups)),
       describeInstances =
         Inr (Some [\<lparr> Instances = Some [runningInstance, stoppedInstance] \<rparr>]) \<rparr>"

text \<open>
  A group with a public permission for ports 24 to 27, the permission that is not
  public, and a public permission without ports.
\<close>

definition groupWeb :: SecurityGroup where
  "groupWeb =
     \<lparr> GroupId = Some ''sg-3'', GroupName = Some ''web'',
       IpPermissions =
         Some [\<lparr> FromPort = Some 24, ToPort = Some 27, IpProtocol = Some ''udp'',
                  IpRanges = Some [\<lparr> CidrIp = Some ''0.0.0.0/0'' \<rparr>], Ipv6Ranges = None \<rparr>,
               widePermission,
               \<lparr> FromPort = None, ToPort = None, IpProtocol = Some ''icmp'',
                  IpRanges = Some [\<lparr> CidrIp = Some ''0.0.0.0/0'' \<rparr>],
                  Ipv6Ranges = None \<rparr>] \<rparr>"


text \<open>A tool over the test catalog and a client with an attached and an unattached group.\<close>

definition testDeps :: SecurityGroupToolDependencies where
  "testDeps =
     \<lparr> awsClient = \<lparr> getEC2Client = clientOf [groupAttached, groupDb],
                     getRegion = ''us-east-1'' \<rparr>,
       analyzer = mockRules,
       now = ''2024-01-15T10:30:00.000Z'',
       issueMessages = (\<lambda>key v. [''Invalid input'']) \<rparr>"

definition emptyInput :: ToolInput where
  "emptyInput = \<lparr> region = JUndefined, groupIds = JUndefined, includeUnused = JUndefined \<rparr>"

section \<open>Loops as maps and filters\<close>

lemma dangerousLoop_eq:
  "dangerousLoop (Some f) (Some t) proto ps g n rs acc =
     acc @ map (\<lambda>rule. \<lparr> securityGroupId = g, securityGroupName = n,
                         ruleId = rule_id rule, f_severity = severity rule,
                         f_description = description rule,
                         f_recommendation = recommendation rule,
                         affectedRule = Some \<lparr> ar_port = PortNumber (the (port rule)),
                                               ar_protocol = proto, ar_source = ps \<rparr> \<rparr>)
               (filter (\<lambda>rule. \<exists>rp. port rule = Some rp \<and> f \<le> rp \<and> rp \<le> t) rs)"
  by (induction rs arbitrary: acc) (auto split: option.splits)

lemma unusedLoop_eq:
  "unusedLoop u used gs acc =
     acc @ map (unusedFinding u)
               (filter (\<lambda>sg. truthy (GroupId sg) \<and> the (GroupId sg) \<notin> used
                              \<and> GroupName sg \<noteq> Some ''default'') gs)"
  by (induction gs arbitrary: acc) auto

lemma filter_key_distinct:
  "distinct (map k xs) \<Longrightarrow> x \<in> set xs \<Longrightarrow>
     filter (\<lambda>y. k y = k x \<and> P y) xs = (if P x then [x] else [])"
proof (induction xs)
  case Nil
  then show ?case by simp
next
  case (Cons a xs)
  show ?case
  proof (cases "a = x")
    case True
    with Cons.prems have "\<forall>y\<in>set xs. k y \<noteq> k x" by (auto simp: image_iff)
    then have "filter (\<lambda>y. k y = k x \<and> P y) xs = []" by (simp add: filter_empty_conv)
    with True show ?thesis by simp
  next
    case False
    with Cons.prems have "x \<in> set xs" "k a \<noteq> k x" by auto
    with Cons show ?thesis by simp
  qed
qed

lemma getRuleById_None: "(getRuleById rules rid = None) = (\<forall>r\<in>set rules. rule_id r \<noteq> rid)"
  by (auto simp: getRuleById_def find_None_iff)

lemma getRuleById_Some:
  "\<exists>r\<in>set rules. rule_id r = rid \<Longrightarrow>
     \<exists>w. getRuleById rules rid = Some w \<and> w \<in> set rules \<and> rule_id w = rid"
  by (cases "getRuleById rules rid") (auto simp: getRuleById_def find_None_iff find_Some_iff)

lemma checkDangerousPorts_eq:
  assumes "ipv4Public p \<or> ipv6Public p" and "FromPort p = Some f" and "ToPort p = Some t"
  shows "checkDangerousPorts rules p g n =
     map (\<lambda>rule. \<lparr> securityGroupId = g, securityGroupName = n,
                   ruleId = rule_id rule, f_severity = severity rule,
                   f_description = description rule,
                   f_recommendation = recommendation rule,
                   affectedRule = Some \<lparr> ar_port = PortNumber (the (port rule)),
                                         ar_protocol = orElse (IpProtocol p) ''unknown'',
                                         ar_source = (if ipv4Public p then ''0.0.0.0/0'' else ''::/0'') \<rparr> \<rparr>)
         (filter (\<lambda>rule. source rule = Some ''0.0.0.0/0''
                          \<and> protocol rule = Some (orElse (IpProtocol p) ''unknown'')
                          \<and> (\<exists>rp. port rule = Some rp \<and> f \<le> rp \<and> rp \<le> t)) rules)"
  using assms
  apply (simp add: checkDangerousPorts_def Let_def dangerousLoop_eq)
  apply (auto intro!: arg_cong2[where f=map] filter_cong)
  done

lemma filter_map_filter:
  "(\<And>x. Q (f x) = R x) \<Longrightarrow>
     filter Q (map f (filter P xs)) = map f (filter (\<lambda>x. R x \<and> P x) xs)"
  by (induction xs) auto

section \<open>Permissions that are not publicly exposed\<close>

text \<open>
  C1, as the analyzer behaves: a permission that carries neither the IPv4 range
  0.0.0.0/0 nor the IPv6 range ::/0 yields no dangerous-port finding and no all-traffic
  finding; whatever it yields comes from the wide-port-range check, which does not look at
  the source ranges.
\<close>

theorem nonpublic_permission_findings:
  assumes "\<not> ipv4Public p" and "\<not> ipv6Public p"
  shows "checkDangerousPorts rules p g n = []
       \<and> checkAllTrafficRules rules p g n = []
       \<and> permissionFindings rules p g n = checkWidePortRanges rules p g n"
  using assms
  by (simp add: checkDangerousPorts_def checkAllTrafficRules_def permissionFindings_def Let_def)

theorem nonpublic_permission_findings_witness:
  "\<not> ipv4Public widePermission \<and> \<not> ipv6Public widePermission
   \<and> checkDangerousPorts mockRules widePermission ''sg-2'' ''wide-range-sg'' = []
   \<and> checkAllTrafficRules mockRules widePermission ''sg-2'' ''wide-range-sg'' = []
   \<and> permissionFindings mockRules widePermission ''sg-2'' ''wide-range-sg''
       = checkWidePortRanges mockRules widePermission ''sg-2'' ''wide-range-sg''"
proof -
  have a: "\<not> ipv4Public widePermission" by (simp add: ipv4Public_def widePermission_def)
  have b: "\<not> ipv6Public widePermission" by (simp add: ipv6Public_def widePermission_def)
  show ?thesis
    using a b nonpublic_permission_findings [OF a b, of mockRules "''sg-2''" "''wide-range-sg''"]
    by simp
qed

text \<open>
  C1 as stated fails: the permission of the test suite for ports 1000 to 2000 from
  10.0.0.0/8 is not publicly exposed, and evaluating it against the test catalog yields
  one wide-port-range finding.
\<close>

theorem nonpublic_wide_range_counterexample:
  "\<not> ipv4Public widePermission \<and> \<not> ipv6Public widePermission
   \<and> permissionFindings mockRules widePermission ''sg-2'' ''wide-range-sg'' =
       [\<lparr> securityGroupId = ''sg-2'', securityGroupName = ''wide-range-sg'',
          ruleId = ''sg-wide-port-range'', f_severity = MEDIUM,
          f_description = ''Wide port range (1000-2000)'',
          f_recommendation = ''Restrict ports'',
          affectedRule = Some \<lparr> ar_port = PortString ''1000-2000'', ar_protocol = ''tcp'',
                                ar_source = ''10.0.0.0/8'' \<rparr> \<rparr>]"
  by (simp add: permissionFindings_def checkDangerousPorts_def checkWidePortRanges_def
      checkAllTrafficRules_def ipv4Public_def ipv6Public_def widePermission_def mockRules_def
      getRuleById_def PORT_RANGE_THRESHOLD_def firstCidrIp_def firstCidrIpv6_def orElse_def
      numberToString_def show_nat.simps Let_def)

section \<open>The dangerous-port check\<close>

text \<open>
  C2: for a publicly exposed permission with \<^verbatim>\<open>FromPort\<close> and \<^verbatim>\<open>ToPort\<close> defined, the
  findings of the dangerous-port check are, in catalog order, one finding for each catalog
  rule that declares a port within the inclusive range, the source 0.0.0.0/0 and the
  protocol of the permission (\<^verbatim>\<open>unknown\<close> when the permission declares none). Each
  finding carries the id, severity, description and recommendation of its rule, the port
  of the rule, that protocol, and the public range that matched: 0.0.0.0/0 when the
  permission has it, ::/0 otherwise. When the rule ids of the catalog are distinct, the
  findings that bear the id of a matching rule are exactly that one finding.
\<close>

theorem dangerous_port_findings:
  assumes "ipv4Public p \<or> ipv6Public p" and "FromPort p = Some fromPort" and "ToPort p = Some toPort"
  shows "checkDangerousPorts rules p sgId sgName =
           map (\<lambda>rule. \<lparr> securityGroupId = sgId, securityGroupName = sgName,
                         ruleId = rule_id rule, f_severity = severity rule,
                         f_description = description rule,
                         f_recommendation = recommendation rule,
                         affectedRule =
                           Some \<lparr> ar_port = PortNumber (the (port rule)),
                                  ar_protocol = orElse (IpProtocol p) ''unknown'',
                                  ar_source = (if ipv4Public p then ''0.0.0.0/0'' else ''::/0'') \<rparr> \<rparr>)
               (filter (\<lambda>rule. source rule = Some ''0.0.0.0/0''
                                \<and> protocol rule = Some (orElse (IpProtocol p) ''unknown'')
                                \<and> (\<exists>rp. port rule = Some rp \<and> fromPort \<le> rp \<and> rp \<le> toPort))
                       rules)
       \<and> (distinct (map rule_id rules) \<longrightarrow>
            (\<forall>rule\<in>set rules.
               source rule = Some ''0.0.0.0/0''
               \<and> protocol rule = Some (orElse (IpProtocol p) ''unknown'')
               \<and> (\<exists>rp. port rule = Some rp \<and> fromPort \<le> rp \<and> rp \<le> toPort) \<longrightarrow>
               filter (\<lambda>fd. ruleId fd = rule_id rule) (checkDangerousPorts rules p sgId sgName) =
                 [\<lparr> securityGroupId = sgId, securityGroupName = sgName,
                    ruleId = rule_id rule, f_severity = severity rule,
                    f_description = description rule,
                    f_recommendation = recommendation rule,
                    affectedRule =
                      Some \<lparr> ar_port = PortNumber (the (port rule)),
                             ar_protocol = orElse (IpProtocol p) ''unknown'',
                             ar_source = (if ipv4Public p then ''0.0.0.0/0'' else ''::/0'') \<rparr> \<rparr>]))"
proof (intro conjI impI ballI)
  show eq: "checkDangerousPorts rules p sgId sgName =
           map (\<lambda>rule. \<lparr> securityGroupId = sgId, securityGroupName = sgName,
                         ruleId = rule_id rule, f_severity = severity rule,
                         f_description = description rule,
                         f_recommendation = recommendation rule,
                         affectedRule =
                           Some \<lparr> ar_port = PortNumber (the (port rule)),
                                  ar_protocol = orElse (IpProtocol p) ''unknown'',
                                  ar_source = (if ipv4Public p then ''0.0.0.0/0'' else ''::/0'') \<rparr> \<rparr>)
               (filter (\<lambda>rule. source rule = Some ''0.0.0.0/0''
                                \<and> protocol rule = Some (orElse (IpProtocol p) ''unknown'')
                                \<and> (\<exists>rp. port rule = Some rp \<and> fromPort \<le> rp \<and> rp \<le> toPort))
                       rules)"
    by (rule checkDangerousPorts_eq [OF assms])
next
  fix rule
  assume d: "distinct (map rule_id rules)" and r: "rule \<in> set rules"
    and m: "source rule = Some ''0.0.0.0/0''
               \<and> protocol rule = Some (orElse (IpProtocol p) ''unknown'')
               \<and> (\<exists>rp. port rule = Some rp \<and> fromPort \<le> rp \<and> rp \<le> toPort)"
  let ?M = "\<lambda>rule. source rule = Some ''0.0.0.0/0''
                                \<and> protocol rule = Some (orElse (IpProtocol p) ''unknown'')
                                \<and> (\<exists>rp. port rule = Some rp \<and> fromPort \<le> rp \<and> rp \<le> toPort)"
  have "filter (\<lambda>y. rule_id y = rule_id rule \<and> ?M y) rules = (if ?M rule then [rule] else [])"
    by (rule filter_key_distinct [OF d r])
  with m have one: "filter (\<lambda>y. rule_id y = rule_id rule \<and> ?M y) rules = [rule]" by simp
  show "filter (\<lambda>fd. ruleId fd = rule_id rule) (checkDangerousPorts rules p sgId sgName) =
                 [\<lparr> securityGroupId = sgId, securityGroupName = sgName,
                    ruleId = rule_id rule, f_severity = severity rule,
                    f_description = description rule,
                    f_recommendation = recommendation rule,
                    affectedRule =
                      Some \<lparr> ar_port = PortNumber (the (port rule)),
                             ar_protocol = orElse (IpProtocol p) ''unknown'',
                             ar_source = (if ipv4Public p then ''0.0.0.0/0'' else ''::/0'') \<rparr> \<rparr>]"
    unfolding checkDangerousPorts_eq [OF assms]
    by (subst filter_map_filter [where R = "\<lambda>y. rule_id y = rule_id rule"])
       (simp_all add: one)
qed

theorem dangerous_port_findings_witness:
  "(ipv4Public openPermission \<or> ipv6Public openPermission)
   \<and> FromPort openPermission = Some 20 \<and> ToPort openPermission = Some 25
   \<and> distinct (map rule_id (mockRules @ [sshRule2]))
   \<and> checkDangerousPorts (mockRules @ [sshRule2]) openPermission ''sg-1'' ''web'' =
       [\<lparr> securityGroupId = ''sg-1'', securityGroupName = ''web'',
          ruleId = ''sg-ssh-world'', f_severity = HIGH,
          f_description = ''SSH port 22 is accessible from anywhere'',
          f_recommendation = ''Restrict SSH access'',
          affectedRule = Some \<lparr> ar_port = PortNumber 22, ar_protocol = ''tcp'',
                                ar_source = ''::/0'' \<rparr> \<rparr>,
        \<lparr> securityGroupId = ''sg-1'', securityGroupName = ''web'',
          ruleId = ''sg-ssh-audit'', f_severity = MEDIUM,
          f_description = ''SSH reachable'',
          f_recommendation = ''Use a bastion host'',
          affectedRule = Some \<lparr> ar_port = PortNumber 22, ar_protocol = ''tcp'',
                                ar_source = ''::/0'' \<rparr> \<rparr>]
   \<and> filter (\<lambda>fd. ruleId fd = ''sg-ssh-audit'')
        (checkDangerousPorts (mockRules @ [sshRule2]) openPermission ''sg-1'' ''web'') =
       [\<lparr> securityGroupId = ''sg-1'', securityGroupName = ''web'',
          ruleId = ''sg-ssh-audit'', f_severity = MEDIUM,
          f_description = ''SSH reachable'',
          f_recommendation = ''Use a bastion host'',
          affectedRule = Some \<lparr> ar_port = PortNumber 22, ar_protocol = ''tcp'',
                                ar_source = ''::/0'' \<rparr> \<rparr>]"
proof -
  have h1: "ipv4Public openPermission \<or> ipv6Public openPermission"
    by (simp add: ipv6Public_def openPermission_def)
  have h2: "FromPort openPermission = Some 20" by (simp add: openPermission_def)
  have h3: "ToPort openPermission = Some 25" by (simp add: openPermission_def)
  have nv4: "\<not> ipv4Public openPermission" by (simp add: ipv4Public_def openPermission_def)
  have proto: "orElse (IpProtocol openPermission) ''unknown'' = ''tcp''"
    by (simp add: orElse_def openPermission_def)
  note T = dangerous_port_findings [OF h1 h2 h3, of "mockRules @ [sshRule2]" "''sg-1''" "''web''"]
  have d: "distinct (map rule_id (mockRules @ [sshRule2]))"
    by (simp add: mockRules_def sshRule2_def)
  have m: "sshRule2 \<in> set (mockRules @ [sshRule2])" by simp
  from T have T1: "checkDangerousPorts (mockRules @ [sshRule2]) openPermission ''sg-1'' ''web'' =
       [\<lparr> securityGroupId = ''sg-1'', securityGroupName = ''web'',
          ruleId = ''sg-ssh-world'', f_severity = HIGH,
          f_description = ''SSH port 22 is accessible from anywhere'',
          f_recommendation = ''Restrict SSH access'',
          affectedRule = Some \<lparr> ar_port = PortNumber 22, ar_protocol = ''tcp'',
                                ar_source = ''::/0'' \<rparr> \<rparr>,
        \<lparr> securityGroupId = ''sg-1'', securityGroupName = ''web'',
          ruleId = ''sg-ssh-audit'', f_severity = MEDIUM,
          f_description = ''SSH reachable'',
          f_recommendation = ''Use a bastion host'',
          affectedRule = Some \<lparr> ar_port = PortNumber 22, ar_protocol = ''tcp'',
                                ar_source = ''::/0'' \<rparr> \<rparr>]"
    by (simp add: nv4 proto mockRules_def sshRule2_def)
  show ?thesis using h1 h2 h3 d T1 by simp
qed


section \<open>The wide-port-range check\<close>




section \<open>Unused security groups\<close>

text \<open>
  C6, as the analyzer behaves: when the catalog has a rule with id \<^verbatim>\<open>sg-unused\<close> and
  the instances can be listed, the unused-group findings are, in the order of the groups,
  one finding for each group that has a non-empty id, whose id is not among the ids
  attached to an instance, and whose name is not \<^verbatim>\<open>default\<close>. The finding carries the
  id, severity, description and recommendation of that rule. When the groups have
  distinct ids, a group receives exactly that one finding if it meets the three
  conditions and none otherwise; so the group named \<^verbatim>\<open>default\<close> is never reported.
\<close>

theorem unused_group_findings:
  assumes "\<exists>r\<in>set rules. rule_id r = ''sg-unused''"
    and "describeInstances c = Inr reservations"
  shows "\<exists>u fs. getRuleById rules ''sg-unused'' = Some u \<and> u \<in> set rules
           \<and> findUnusedSecurityGroups rules c gs = Inr fs
           \<and> fs = map (\<lambda>sg. \<lparr> securityGroupId = the (GroupId sg),
                                securityGroupName = orElse (GroupName sg) ''unknown'',
                                ruleId = ''sg-unused'', f_severity = severity u,
                                f_description = description u,
                                f_recommendation = recommendation u,
                                affectedRule = None \<rparr>)
                      (filter (\<lambda>sg. (\<exists>gid. GroupId sg = Some gid \<and> gid \<noteq> []
                                             \<and> gid \<notin> usedSecurityGroups reservations)
                                     \<and> GroupName sg \<noteq> Some ''default'') gs)
           \<and> (distinct (map GroupId gs) \<longrightarrow>
                (\<forall>sg\<in>set gs.
                   filter (\<lambda>fd. Some (securityGroupId fd) = GroupId sg) fs =
                     (if (\<exists>gid. GroupId sg = Some gid \<and> gid \<noteq> []
                                \<and> gid \<notin> usedSecurityGroups reservations)
                         \<and> GroupName sg \<noteq> Some ''default''
                      then [\<lparr> securityGroupId = the (GroupId sg),
                              securityGroupName = orElse (GroupName sg) ''unknown'',
                              ruleId = ''sg-unused'', f_severity = severity u,
                              f_description = description u,
                              f_recommendation = recommendation u,
                              affectedRule = None \<rparr>]
                      else [])))"
proof -
  from getRuleById_Some [OF assms(1)] obtain u where
    u: "getRuleById rules ''sg-unused'' = Some u" "u \<in> set rules" "rule_id u = ''sg-unused''"
    by blast
  let ?used = "usedSecurityGroups reservations"
  let ?C = "\<lambda>sg. (\<exists>gid. GroupId sg = Some gid \<and> gid \<noteq> [] \<and> gid \<notin> ?used)
                   \<and> GroupName sg \<noteq> Some ''default''"
  let ?mk = "\<lambda>sg. \<lparr> securityGroupId = the (GroupId sg),
                                securityGroupName = orElse (GroupName sg) ''unknown'',
                                ruleId = ''sg-unused'', f_severity = severity u,
                                f_description = description u,
                                f_recommendation = recommendation u,
                                affectedRule = None \<rparr>"
  let ?fs = "map ?mk (filter ?C gs)"
  have cond: "\<And>sg. (truthy (GroupId sg) \<and> the (GroupId sg) \<notin> ?used
                       \<and> GroupName sg \<noteq> Some ''default'') = ?C sg"
    by (auto simp: truthy_def split: option.splits)
  have mk: "unusedFinding u = ?mk"
    by (rule ext) (simp add: unusedFinding_def u(3))
  have run: "findUnusedSecurityGroups rules c gs = Inr ?fs"
    by (simp add: findUnusedSecurityGroups_def assms(2) u(1) Let_def unusedLoop_eq cond mk)
  have per: "filter (\<lambda>fd. Some (securityGroupId fd) = GroupId sg) ?fs =
               (if ?C sg then [?mk sg] else [])"
    if d: "distinct (map GroupId gs)" and sg: "sg \<in> set gs" for sg
  proof -
    have a: "filter (\<lambda>fd. Some (securityGroupId fd) = GroupId sg) ?fs =
             map ?mk (filter (\<lambda>x. Some (the (GroupId x)) = GroupId sg \<and> ?C x) gs)"
      by (rule filter_map_filter) simp
    have b: "filter (\<lambda>x. Some (the (GroupId x)) = GroupId sg \<and> ?C x) gs
             = filter (\<lambda>x. GroupId x = GroupId sg \<and> ?C x) gs"
      by (rule filter_cong [OF refl]) (metis option.sel)
    have c: "filter (\<lambda>x. GroupId x = GroupId sg \<and> ?C x) gs = (if ?C sg then [sg] else [])"
      by (rule filter_key_distinct [OF d sg])
    have "filter (\<lambda>fd. Some (securityGroupId fd) = GroupId sg) ?fs =
            map ?mk (if ?C sg then [sg] else [])"
      by (rule trans [OF a]) (simp only: b c)
    then show ?thesis by simp
  qed
  from u(1,2) run per show ?thesis by blast
qed

theorem unused_group_findings_witness:
  "(\<exists>r\<in>set mockRules. rule_id r = ''sg-unused'')
   \<and> describeInstances (clientOf []) =
        Inr (Some [\<lparr> Instances = Some [runningInstance, stoppedInstance] \<rparr>])
   \<and> usedSecurityGroups (Some [\<lparr> Instances = Some [runningInstance, stoppedInstance] \<rparr>])
        = {''sg-1''}
   \<and> distinct (map GroupId [groupAttached, groupDb, groupDefault])
   \<and> findUnusedSecurityGroups mockRules (clientOf []) [groupAttached, groupDb, groupDefault] =
        Inr [\<lparr> securityGroupId = ''sg-2'', securityGroupName = ''db'',
               ruleId = ''sg-unused'', f_severity = LOW,
               f_description = ''Security group is not attached'',
               f_recommendation = ''Remove unused'', affectedRule = None \<rparr>]"
proof -
  let ?rs = "Some [\<lparr> Instances = Some [runningInstance, stoppedInstance] \<rparr>]"
  let ?gs = "[groupAttached, groupDb, groupDefault]"
  have h1: "\<exists>r\<in>set mockRules. rule_id r = ''sg-unused''" by (simp add: mockRules_def)
  have h2: "describeInstances (clientOf []) = Inr ?rs" by (simp add: clientOf_def)
  have used: "usedSecurityGroups ?rs = {''sg-1''}"
    by (simp add: usedSecurityGroups_def instanceGroupIds_def orElse_def truthy_def
        runningInstance_def stoppedInstance_def)
  have d: "distinct (map GroupId ?gs)"
    by (simp add: groupAttached_def groupDb_def groupDefault_def)
  have g: "getRuleById mockRules ''sg-unused'' = Some (mockRules ! 2)"
    by (simp add: getRuleById_def mockRules_def)
  from unused_group_findings [OF h1 h2, of ?gs]
  obtain u fs where u: "getRuleById mockRules ''sg-unused'' = Some u"
    and run: "findUnusedSecurityGroups mockRules (clientOf []) ?gs = Inr fs"
    and fs: "fs = map (\<lambda>sg. \<lparr> securityGroupId = the (GroupId sg),
                                securityGroupName = orElse (GroupName sg) ''unknown'',
                                ruleId = ''sg-unused'', f_severity = severity u,
                                f_description = description u,
                                f_recommendation = recommendation u,
                                affectedRule = None \<rparr>)
                      (filter (\<lambda>sg. (\<exists>gid. GroupId sg = Some gid \<and> gid \<noteq> []
                                             \<and> gid \<notin> usedSecurityGroups ?rs)
                                     \<and> GroupName sg \<noteq> Some ''default'') ?gs)"
    by blast
  from u g have u2: "u = mockRules ! 2" by simp
  have "fs = [\<lparr> securityGroupId = ''sg-2'', securityGroupName = ''db'',
               ruleId = ''sg-unused'', f_severity = LOW,
               f_description = ''Security group is not attached'',
               f_recommendation = ''Remove unused'', affectedRule = None \<rparr>]"
    unfolding fs u2 used
    by (simp add: groupAttached_def groupDb_def groupDefault_def mockRules_def orElse_def)
  with h1 h2 used d run show ?thesis by simp
qed


text \<open>
  C6 as stated fails in two ways on one input. The catalog holds the rule
  \<^verbatim>\<open>sg-unused\<close> with MEDIUM severity. Of four groups, none attached to an instance,
  one has no id, one has the empty id, one is ordinary and one is named \<^verbatim>\<open>default\<close>.
  The first two are not named \<^verbatim>\<open>default\<close> and no id of theirs is in the active set, yet
  they receive no finding; and the single finding, for the ordinary group, has the
  severity of the rule, MEDIUM.
\<close>

theorem unused_group_counterexample:
  "getRuleById mediumUnusedRules ''sg-unused'' \<noteq> None
   \<and> GroupId groupNoId = None \<and> GroupName groupNoId \<noteq> Some ''default''
   \<and> GroupId groupEmptyId = Some [] \<and> GroupName groupEmptyId \<noteq> Some ''default''
   \<and> [] \<notin> usedSecurityGroups (Some [\<lparr> Instances = Some [runningInstance, stoppedInstance] \<rparr>])
   \<and> findUnusedSecurityGroups mediumUnusedRules (clientOf [])
        [groupNoId, groupEmptyId, groupDb, groupDefault] =
        Inr [\<lparr> securityGroupId = ''sg-2'', securityGroupName = ''db'',
               ruleId = ''sg-unused'', f_severity = MEDIUM,
               f_description = ''Security group is not attached'',
               f_recommendation = ''Remove unused'', affectedRule = None \<rparr>]"
  by (simp add: findUnusedSecurityGroups_def getRuleById_def mediumUnusedRules_def clientOf_def
      usedSecurityGroups_def instanceGroupIds_def orElse_def truthy_def unusedFinding_def
      runningInstance_def stoppedInstance_def groupNoId_def groupEmptyId_def groupDb_def
      groupDefault_def Let_def)


section \<open>A catalog that lacks a named rule\<close>

text \<open>
  C7: when the catalog has no rule with id \<^verbatim>\<open>sg-wide-port-range\<close>, the wide-port-range
  check yields nothing and the findings of a permission are those of the two other
  checks; likewise for \<^verbatim>\<open>sg-all-traffic\<close> and the all-traffic check. When the catalog
  has no rule with id \<^verbatim>\<open>sg-unused\<close> and the instances can be listed, the unused-group
  detection returns the empty list, and the analysis returns the per-group findings
  with their summary. No branch raises an error for want of a rule.
\<close>

theorem missing_rule_skips_category:
  "((\<forall>r\<in>set rules. rule_id r \<noteq> ''sg-wide-port-range'') \<longrightarrow>
      checkWidePortRanges rules p sgId sgName = []
      \<and> permissionFindings rules p sgId sgName =
          checkDangerousPorts rules p sgId sgName @ checkAllTrafficRules rules p sgId sgName)
   \<and> ((\<forall>r\<in>set rules. rule_id r \<noteq> ''sg-all-traffic'') \<longrightarrow>
      checkAllTrafficRules rules p sgId sgName = []
      \<and> permissionFindings rules p sgId sgName =
          checkDangerousPorts rules p sgId sgName @ checkWidePortRanges rules p sgId sgName)
   \<and> ((\<forall>r\<in>set rules. rule_id r \<noteq> ''sg-unused'') \<longrightarrow>
      (\<forall>reservations. describeInstances c = Inr reservations \<longrightarrow>
         findUnusedSecurityGroups rules c gs = Inr []
         \<and> (\<forall>response. describeSecurityGroups c ids = Inr response \<longrightarrow>
              SecurityGroupAnalyzer_analyze rules c ids =
                Inr \<lparr> summary =
                        generateSummary
                          (concat (map (analyzeSecurityGroup rules) (orElse response [])))
                          (length (orElse response [])),
                      findings =
                        concat (map (analyzeSecurityGroup rules) (orElse response [])) \<rparr>)))"
proof (intro conjI impI allI)
  assume a: "\<forall>r\<in>set rules. rule_id r \<noteq> ''sg-wide-port-range''"
  then have n: "getRuleById rules ''sg-wide-port-range'' = None" by (simp add: getRuleById_None)
  show w: "checkWidePortRanges rules p sgId sgName = []"
    by (simp add: checkWidePortRanges_def n Let_def split: option.splits)
  show "permissionFindings rules p sgId sgName =
          checkDangerousPorts rules p sgId sgName @ checkAllTrafficRules rules p sgId sgName"
    by (simp add: permissionFindings_def w)
next
  assume a: "\<forall>r\<in>set rules. rule_id r \<noteq> ''sg-all-traffic''"
  then have n: "getRuleById rules ''sg-all-traffic'' = None" by (simp add: getRuleById_None)
  show w: "checkAllTrafficRules rules p sgId sgName = []"
    by (simp add: checkAllTrafficRules_def n Let_def)
  show "permissionFindings rules p sgId sgName =
          checkDangerousPorts rules p sgId sgName @ checkWidePortRanges rules p sgId sgName"
    by (simp add: permissionFindings_def w)
next
  fix reservations
  assume a: "\<forall>r\<in>set rules. rule_id r \<noteq> ''sg-unused''"
    and i: "describeInstances c = Inr reservations"
  from a have n: "getRuleById rules ''sg-unused'' = None" by (simp add: getRuleById_None)
  show "findUnusedSecurityGroups rules c gs = Inr []"
    by (simp add: findUnusedSecurityGroups_def i n Let_def)
next
  fix reservations response
  assume a: "\<forall>r\<in>set rules. rule_id r \<noteq> ''sg-unused''"
    and i: "describeInstances c = Inr reservations"
    and g: "describeSecurityGroups c ids = Inr response"
  from a have n: "getRuleById rules ''sg-unused'' = None" by (simp add: getRuleById_None)
  show "SecurityGroupAnalyzer_analyze rules c ids =
                Inr \<lparr> summary =
                        generateSummary
                          (concat (map (analyzeSecurityGroup rules) (orElse response [])))
                          (length (orElse response [])),
                      findings =
                        concat (map (analyzeSecurityGroup rules) (orElse response [])) \<rparr>"
    by (simp add: SecurityGroupAnalyzer_analyze_def findUnusedSecurityGroups_def i g n Let_def)
qed

theorem missing_rule_skips_category_witness:
  "''sg-wide-port-range'' \<notin> set (map rule_id pointRules)
   \<and> ''sg-all-traffic'' \<notin> set (map rule_id pointRules)
   \<and> ''sg-unused'' \<notin> set (map rule_id pointRules)
   \<and> checkWidePortRanges pointRules allTrafficPermission ''sg-1'' ''web'' = []
   \<and> checkAllTrafficRules pointRules allTrafficPermission ''sg-1'' ''web'' = []
   \<and> describeInstances (clientOf [groupAttached, groupDb]) =
        Inr (Some [\<lparr> Instances = Some [runningInstance, stoppedInstance] \<rparr>])
   \<and> describeSecurityGroups (clientOf [groupAttached, groupDb]) None =
        Inr (Some [groupAttached, groupDb])
   \<and> findUnusedSecurityGroups pointRules (clientOf [groupAttached, groupDb])
        [groupAttached, groupDb] = Inr []
   \<and> SecurityGroupAnalyzer_analyze pointRules (clientOf [groupAttached, groupDb]) None =
        Inr \<lparr> summary = \<lparr> totalGroups = 2, highRiskFindings = 1, mediumRiskFindings = 1,
                           lowRiskFindings = 0 \<rparr>,
              findings =
                [\<lparr> securityGroupId = ''sg-1'', securityGroupName = ''test-sg'',
                   ruleId = ''sg-ssh-world'', f_severity = HIGH,
                   f_description = ''SSH port 22 is accessible from anywhere'',
                   f_recommendation = ''Restrict SSH access'',
                   affectedRule = Some \<lparr> ar_port = PortNumber 22, ar_protocol = ''tcp'',
                                         ar_source = ''::/0'' \<rparr> \<rparr>,
                 \<lparr> securityGroupId = ''sg-1'', securityGroupName = ''test-sg'',
                   ruleId = ''sg-ssh-audit'', f_severity = MEDIUM,
                   f_description = ''SSH reachable'',
                   f_recommendation = ''Use a bastion host'',
                   affectedRule = Some \<lparr> ar_port = PortNumber 22, ar_protocol = ''tcp'',
                                         ar_source = ''::/0'' \<rparr> \<rparr>] \<rparr>"
proof -
  let ?c = "clientOf [groupAttached, groupDb]"
  let ?rs = "Some [\<lparr> Instances = Some [runningInstance, stoppedInstance] \<rparr>]"
  have h1: "\<forall>r\<in>set pointRules. rule_id r \<noteq> ''sg-wide-port-range''"
    by (simp add: pointRules_def mockRules_def sshRule2_def)
  have h2: "\<forall>r\<in>set pointRules. rule_id r \<noteq> ''sg-all-traffic''"
    by (simp add: pointRules_def mockRules_def sshRule2_def)
  have h3: "\<forall>r\<in>set pointRules. rule_id r \<noteq> ''sg-unused''"
    by (simp add: pointRules_def mockRules_def sshRule2_def)
  have i: "describeInstances ?c = Inr ?rs" by (simp add: clientOf_def)
  have g: "describeSecurityGroups ?c None = Inr (Some [groupAttached, groupDb])"
    by (simp add: clientOf_def)
  note T = missing_rule_skips_category
    [of pointRules allTrafficPermission "''sg-1''" "''web''" ?c "[groupAttached, groupDb]" None]
  from T h1 have a: "checkWidePortRanges pointRules allTrafficPermission ''sg-1'' ''web'' = []"
    by blast
  from T h2 have b: "checkAllTrafficRules pointRules allTrafficPermission ''sg-1'' ''web'' = []"
    by blast
  from T h3 i have u: "findUnusedSecurityGroups pointRules ?c [groupAttached, groupDb] = Inr []"
    by blast
  from T h3 i g have r: "SecurityGroupAnalyzer_analyze pointRules ?c None =
      Inr \<lparr> summary =
              generateSummary
                (concat (map (analyzeSecurityGroup pointRules)
                   (orElse (Some [groupAttached, groupDb]) [])))
                (length (orElse (Some [groupAttached, groupDb]) [])),
            findings =
              concat (map (analyzeSecurityGroup pointRules)
                 (orElse (Some [groupAttached, groupDb]) [])) \<rparr>"
    by blast
  have f: "concat (map (analyzeSecurityGroup pointRules)
                 (orElse (Some [groupAttached, groupDb]) [])) =
                [\<lparr> securityGroupId = ''sg-1'', securityGroupName = ''test-sg'',
                   ruleId = ''sg-ssh-world'', f_severity = HIGH,
                   f_description = ''SSH port 22 is accessible from anywhere'',
                   f_recommendation = ''Restrict SSH access'',
                   affectedRule = Some \<lparr> ar_port = PortNumber 22, ar_protocol = ''tcp'',
                                         ar_source = ''::/0'' \<rparr> \<rparr>,
                 \<lparr> securityGroupId = ''sg-1'', securityGroupName = ''test-sg'',
                   ruleId = ''sg-ssh-audit'', f_severity = MEDIUM,
                   f_description = ''SSH reachable'',
                   f_recommendation = ''Use a bastion host'',
                   affectedRule = Some \<lparr> ar_port = PortNumber 22, ar_protocol = ''tcp'',
                                         ar_source = ''::/0'' \<rparr> \<rparr>]"
    by (simp add: analyzeSecurityGroup_def permissionFindings_def checkDangerousPorts_def
        checkWidePortRanges_def checkAllTrafficRules_def getRuleById_def ipv4Public_def
        ipv6Public_def orElse_def groupAttached_def groupDb_def openPermission_def
        pointRules_def mockRules_def sshRule2_def Let_def)
  have r': "SecurityGroupAnalyzer_analyze pointRules ?c None =
        Inr \<lparr> summary = \<lparr> totalGroups = 2, highRiskFindings = 1, mediumRiskFindings = 1,
                           lowRiskFindings = 0 \<rparr>,
              findings =
                [\<lparr> securityGroupId = ''sg-1'', securityGroupName = ''test-sg'',
                   ruleId = ''sg-ssh-world'', f_severity = HIGH,
                   f_description = ''SSH port 22 is accessible from anywhere'',
                   f_recommendation = ''Restrict SSH access'',
                   affectedRule = Some \<lparr> ar_port = PortNumber 22, ar_protocol = ''tcp'',
                                         ar_source = ''::/0'' \<rparr> \<rparr>,
                 \<lparr> securityGroupId = ''sg-1'', securityGroupName = ''test-sg'',
                   ruleId = ''sg-ssh-audit'', f_severity = MEDIUM,
                   f_description = ''SSH reachable'',
                   f_recommendation = ''Use a bastion host'',
                   affectedRule = Some \<lparr> ar_port = PortNumber 22, ar_protocol = ''tcp'',
                                         ar_source = ''::/0'' \<rparr> \<rparr>] \<rparr>"
    unfolding r f by (simp add: generateSummary_def orElse_def)
  have m: "''sg-wide-port-range'' \<notin> set (map rule_id pointRules)"
    "''sg-all-traffic'' \<notin> set (map rule_id pointRules)"
    "''sg-unused'' \<notin> set (map rule_id pointRules)"
    by (simp_all add: pointRules_def mockRules_def sshRule2_def)
  from m a b i g u r' show ?thesis by blast
qed

section \<open>Risk classification of exposed ports\<close>

lemma member_DANGEROUS_PORTS:
  "List.member DANGEROUS_PORTS p = (p \<in> {22, 3389, 3306, 5432, 1433, 6379, 27017, 5984})"
  by (simp add: DANGEROUS_PORTS_def)

lemma hasDangerousPorts_iff:
  "list_ex (\<lambda>p. List.member DANGEROUS_PORTS p) ports =
     (\<exists>p\<in>set ports. p \<in> {22, 3389, 3306, 5432, 1433, 6379, 27017, 5984})"
  by (simp only: list_ex_iff member_DANGEROUS_PORTS)


text \<open>
  C4: the risk level of a list of exposed ports is HIGH exactly when the list contains
  one of the ports 22, 3389, 3306, 5432, 1433, 6379, 27017, 5984; otherwise it is MEDIUM
  exactly when the list has more than 5 entries; otherwise it is LOW. The level is a
  function of the list alone.
\<close>

theorem assessRisk_classification:
  "assessRisk ports =
     (if \<exists>p\<in>set ports. p \<in> {22, 3389, 3306, 5432, 1433, 6379, 27017, 5984} then HIGH
      else if length ports > 5 then MEDIUM
      else LOW)
   \<and> ((assessRisk ports = HIGH) =
        (\<exists>p\<in>set ports. p \<in> {22, 3389, 3306, 5432, 1433, 6379, 27017, 5984}))
   \<and> ((assessRisk ports = MEDIUM) =
        ((\<forall>p\<in>set ports. p \<notin> {22, 3389, 3306, 5432, 1433, 6379, 27017, 5984})
         \<and> length ports > 5))
   \<and> ((assessRisk ports = LOW) =
        ((\<forall>p\<in>set ports. p \<notin> {22, 3389, 3306, 5432, 1433, 6379, 27017, 5984})
         \<and> length ports \<le> 5))"
proof -
  have eq: "assessRisk ports =
     (if \<exists>p\<in>set ports. p \<in> {22, 3389, 3306, 5432, 1433, 6379, 27017, 5984} then HIGH
      else if length ports > 5 then MEDIUM
      else LOW)"
    unfolding assessRisk_def Let_def hasDangerousPorts_iff EXPOSED_PORTS_MEDIUM_THRESHOLD_def
    by (rule refl)
  show ?thesis
    unfolding eq by auto
qed


theorem assessRisk_classification_witness:
  "assessRisk [22, 3306] = HIGH
   \<and> assessRisk [80, 443, 8080, 8081, 8082, 8083] = MEDIUM
   \<and> assessRisk [443] = LOW"
  using assessRisk_classification [of "[22, 3306]"]
    assessRisk_classification [of "[80, 443, 8080, 8081, 8082, 8083]"]
    assessRisk_classification [of "[443]"]
  by simp


section \<open>Exposed ports of an instance\<close>

lemma addPortRange_set: "set (addPortRange a b ps) = set ps \<union> {a..b}"
proof (induction a b ps rule: addPortRange.induct)
  case (1 portNo toPort ports)
  show ?case
  proof (cases "portNo \<le> toPort")
    case True
    have "{portNo..toPort} = insert portNo {portNo + 1..toPort}" using True by auto
    with 1 True show ?thesis
      by (subst addPortRange.simps) auto
  next
    case False
    then show ?thesis by (subst addPortRange.simps) simp
  qed
qed

lemma addPortRange_distinct: "distinct ps \<Longrightarrow> distinct (addPortRange a b ps)"
proof (induction a b ps rule: addPortRange.induct)
  case (1 portNo toPort ports)
  show ?case
  proof (cases "portNo \<le> toPort")
    case True
    with 1 show ?thesis
      by (subst addPortRange.simps) auto
  next
    case False
    with 1 show ?thesis by (subst addPortRange.simps) simp
  qed
qed

lemma addPermissionPorts_set:
  "set (addPermissionPorts p ps) =
     set ps \<union> (if ipv4Public p \<or> ipv6Public p
                then (case (FromPort p, ToPort p) of (Some f, Some t) \<Rightarrow> {f..t} | _ \<Rightarrow> {})
                else {})"
  by (auto simp: addPermissionPorts_def addPortRange_set split: option.splits)

lemma addPermissionPorts_distinct: "distinct ps \<Longrightarrow> distinct (addPermissionPorts p ps)"
  by (auto simp: addPermissionPorts_def addPortRange_distinct split: option.splits)

lemma fold_addPermissionPorts_set:
  "set (fold addPermissionPorts perms ps) =
     set ps \<union> (\<Union>p\<in>set perms.
                  if ipv4Public p \<or> ipv6Public p
                  then (case (FromPort p, ToPort p) of (Some f, Some t) \<Rightarrow> {f..t} | _ \<Rightarrow> {})
                  else {})"
  by (induction perms arbitrary: ps) (auto simp: addPermissionPorts_set)

lemma fold_addPermissionPorts_distinct:
  "distinct ps \<Longrightarrow> distinct (fold addPermissionPorts perms ps)"
  by (induction perms arbitrary: ps) (auto simp: addPermissionPorts_distinct)

lemma fold_addGroupPorts_set:
  "set (fold addGroupPorts gs ps) =
     set ps \<union> (\<Union>sg\<in>set gs. \<Union>p\<in>set (orElse (IpPermissions sg) []).
                  if ipv4Public p \<or> ipv6Public p
                  then (case (FromPort p, ToPort p) of (Some f, Some t) \<Rightarrow> {f..t} | _ \<Rightarrow> {})
                  else {})"
  by (induction gs arbitrary: ps) (auto simp: addGroupPorts_def fold_addPermissionPorts_set)

lemma fold_addGroupPorts_distinct:
  "distinct ps \<Longrightarrow> distinct (fold addGroupPorts gs ps)"
  by (induction gs arbitrary: ps) (auto simp: addGroupPorts_def fold_addPermissionPorts_distinct)

lemma getExposedPorts_sorted:
  "getExposedPorts c ids = Inr ports \<Longrightarrow> sorted_wrt (<) ports \<and> distinct ports"
  by (auto simp: getExposedPorts_def strict_sorted_iff fold_addGroupPorts_distinct
      split: if_splits sum.splits)

lemma getExposedPorts_returns:
  "\<forall>ids. \<exists>response. describeSecurityGroups c ids = Inr response \<Longrightarrow>
     \<exists>ports. getExposedPorts c ids = Inr ports"
proof -
  assume a: "\<forall>ids. \<exists>response. describeSecurityGroups c ids = Inr response"
  then obtain response where "describeSecurityGroups c (Some ids) = Inr response" by blast
  then show ?thesis by (simp add: getExposedPorts_def)
qed

lemma instancesLoop_exposed:
  "instancesLoop c xs acc = Inr r \<Longrightarrow>
   \<forall>i\<in>set acc. getExposedPorts c (securityGroups i) = Inr (exposedPorts i) \<Longrightarrow>
   \<forall>i\<in>set r. getExposedPorts c (securityGroups i) = Inr (exposedPorts i)"
proof (induction xs arbitrary: acc)
  case Nil
  then show ?case by simp
next
  case (Cons x xs)
  show ?case
  proof (cases "truthy (PublicIpAddress x) \<and> isRunning x")
    case True
    with Cons.prems(1) obtain ports where
      p: "getExposedPorts c (instanceGroupIds x) = Inr ports"
      by (auto simp: Let_def split: sum.splits)
    with True Cons.prems(1) have
      "instancesLoop c xs
         (acc @ [\<lparr> instanceId = orElse (InstanceId x) ''unknown'',
                   publicIp = the (PublicIpAddress x),
                   securityGroups = instanceGroupIds x,
                   exposedPorts = ports,
                   riskLevel = assessRisk ports,
                   recommendations = PublicInstanceAnalyzer_generateRecommendations ports \<rparr>])
       = Inr r"
      by (simp add: Let_def)
    then show ?thesis
      by (rule Cons.IH) (use Cons.prems(2) p in auto)
  next
    case False
    with Cons.prems(1) have "instancesLoop c xs acc = Inr r" by auto
    then show ?thesis by (rule Cons.IH) (rule Cons.prems(2))
  qed
qed

lemma instancesLoop_listing:
  "instancesLoop c xs acc = Inr r \<Longrightarrow>
   map (\<lambda>info. (instanceId info, publicIp info)) r =
     map (\<lambda>info. (instanceId info, publicIp info)) acc
     @ map (\<lambda>inst. (orElse (InstanceId inst) ''unknown'', the (PublicIpAddress inst)))
           (filter (\<lambda>inst. truthy (PublicIpAddress inst) \<and> isRunning inst) xs)"
proof (induction xs arbitrary: acc)
  case Nil
  then show ?case by simp
next
  case (Cons x xs)
  show ?case
  proof (cases "truthy (PublicIpAddress x) \<and> isRunning x")
    case True
    with Cons.prems(1) obtain ports where
      p: "getExposedPorts c (instanceGroupIds x) = Inr ports"
      by (auto simp: Let_def split: sum.splits)
    with True Cons.prems(1) have
      "instancesLoop c xs
         (acc @ [\<lparr> instanceId = orElse (InstanceId x) ''unknown'',
                   publicIp = the (PublicIpAddress x),
                   securityGroups = instanceGroupIds x,
                   exposedPorts = ports,
                   riskLevel = assessRisk ports,
                   recommendations = PublicInstanceAnalyzer_generateRecommendations ports \<rparr>])
       = Inr r"
      by (simp add: Let_def)
    from Cons.IH [OF this] True show ?thesis by simp
  next
    case False
    with Cons.prems(1) have "instancesLoop c xs acc = Inr r" by auto
    from Cons.IH [OF this] False show ?thesis by auto
  qed
qed

lemma instancesLoop_returns:
  "\<forall>ids. \<exists>response. describeSecurityGroups c ids = Inr response \<Longrightarrow>
     \<exists>r. instancesLoop c xs acc = Inr r"
proof (induction xs arbitrary: acc)
  case Nil
  then show ?case by simp
next
  case (Cons x xs)
  from getExposedPorts_returns [OF Cons.prems] obtain ports where
    "getExposedPorts c (instanceGroupIds x) = Inr ports" by blast
  with Cons.IH [OF Cons.prems] show ?case by (simp add: Let_def)
qed

text \<open>
  C5: without group ids the exposed ports are the empty list. With group ids, for the
  groups that the client returns, the exposed ports are strictly ascending, free of
  duplicates, and their set is the union, over the permissions of those groups that are
  publicly exposed and have \<^verbatim>\<open>FromPort\<close> and \<^verbatim>\<open>ToPort\<close> defined, of the integers from
  \<^verbatim>\<open>FromPort\<close> to \<^verbatim>\<open>ToPort\<close>. Every instance listed by the analysis carries the
  exposed ports computed for its group ids, so they are strictly ascending and free of
  duplicates.
\<close>

theorem exposed_ports_sorted_union:
  "getExposedPorts c [] = Inr []
   \<and> (securityGroupIds \<noteq> [] \<and> describeSecurityGroups c (Some securityGroupIds) = Inr response
        \<longrightarrow>
        (\<exists>ports. getExposedPorts c securityGroupIds = Inr ports
           \<and> sorted_wrt (<) ports \<and> distinct ports
           \<and> set ports =
               (\<Union>sg\<in>set (orElse response []).
                  \<Union>permission\<in>set (orElse (IpPermissions sg) []).
                    if ipv4Public permission \<or> ipv6Public permission
                    then (case (FromPort permission, ToPort permission) of
                            (Some fromPort, Some toPort) \<Rightarrow> {fromPort..toPort}
                          | _ \<Rightarrow> {})
                    else {})))
   \<and> (PublicInstanceAnalyzer_analyze c = Inr result \<longrightarrow>
        (\<forall>info\<in>set (instances result).
           getExposedPorts c (securityGroups info) = Inr (exposedPorts info)
           \<and> sorted_wrt (<) (exposedPorts info) \<and> distinct (exposedPorts info)))"
proof (intro conjI impI)
  show "getExposedPorts c [] = Inr []" by (simp add: getExposedPorts_def)
next
  assume a: "securityGroupIds \<noteq> [] \<and> describeSecurityGroups c (Some securityGroupIds) = Inr response"
  let ?ports = "sort (fold addGroupPorts (orElse response []) [])"
  from a have run: "getExposedPorts c securityGroupIds = Inr ?ports"
    by (simp add: getExposedPorts_def)
  from getExposedPorts_sorted [OF run] have s: "sorted_wrt (<) ?ports" "distinct ?ports"
    by blast+
  have u: "set ?ports =
               (\<Union>sg\<in>set (orElse response []).
                  \<Union>permission\<in>set (orElse (IpPermissions sg) []).
                    if ipv4Public permission \<or> ipv6Public permission
                    then (case (FromPort permission, ToPort permission) of
                            (Some fromPort, Some toPort) \<Rightarrow> {fromPort..toPort}
                          | _ \<Rightarrow> {})
                    else {})"
    by (simp add: fold_addGroupPorts_set)
  from run s u show "\<exists>ports. getExposedPorts c securityGroupIds = Inr ports
           \<and> sorted_wrt (<) ports \<and> distinct ports
           \<and> set ports =
               (\<Union>sg\<in>set (orElse response []).
                  \<Union>permission\<in>set (orElse (IpPermissions sg) []).
                    if ipv4Public permission \<or> ipv6Public permission
                    then (case (FromPort permission, ToPort permission) of
                            (Some fromPort, Some toPort) \<Rightarrow> {fromPort..toPort}
                          | _ \<Rightarrow> {})
                    else {})"
    by blast
next
  assume a: "PublicInstanceAnalyzer_analyze c = Inr result"
  then obtain reservations where
    l: "instancesLoop c (allInstancesOf reservations) [] = Inr (instances result)"
    by (auto simp: PublicInstanceAnalyzer_analyze_def Let_def split: sum.splits)
  from instancesLoop_exposed [OF l] have
    e: "\<forall>i\<in>set (instances result). getExposedPorts c (securityGroups i) = Inr (exposedPorts i)"
    by simp
  show "\<forall>info\<in>set (instances result).
           getExposedPorts c (securityGroups info) = Inr (exposedPorts info)
           \<and> sorted_wrt (<) (exposedPorts info) \<and> distinct (exposedPorts info)"
  proof
    fix info assume "info \<in> set (instances result)"
    with e have g: "getExposedPorts c (securityGroups info) = Inr (exposedPorts info)" by blast
    with getExposedPorts_sorted [OF g]
    show "getExposedPorts c (securityGroups info) = Inr (exposedPorts info)
           \<and> sorted_wrt (<) (exposedPorts info) \<and> distinct (exposedPorts info)" by blast
  qed
qed

theorem exposed_ports_sorted_union_witness:
  "describeSecurityGroups (clientOf [groupWeb, groupAttached]) (Some [''sg-3'', ''sg-1'']) =
     Inr (Some [groupWeb, groupAttached])
   \<and> getExposedPorts (clientOf [groupWeb, groupAttached]) [''sg-3'', ''sg-1''] =
       Inr [20, 21, 22, 23, 24, 25, 26, 27]
   \<and> sorted_wrt (<) [20, 21, 22, 23, 24, 25, 26, 27 :: int]
   \<and> distinct [20, 21, 22, 23, 24, 25, 26, 27 :: int]
   \<and> set [20, 21, 22, 23, 24, 25, 26, 27 :: int] = {24..27} \<union> {20..25}"
proof -
  let ?c = "clientOf [groupWeb, groupAttached]"
  have h1: "[''sg-3'', ''sg-1''] \<noteq> []" by simp
  have h2: "describeSecurityGroups ?c (Some [''sg-3'', ''sg-1'']) =
              Inr (Some [groupWeb, groupAttached])"
    by (simp add: clientOf_def)
  have run: "getExposedPorts ?c [''sg-3'', ''sg-1''] = Inr [20, 21, 22, 23, 24, 25, 26, 27]"
    by code_simp
  from exposed_ports_sorted_union
         [of ?c "[''sg-3'', ''sg-1'']" "Some [groupWeb, groupAttached]"] h1 h2
  obtain ports where p: "getExposedPorts ?c [''sg-3'', ''sg-1''] = Inr ports"
    "sorted_wrt (<) ports" "distinct ports"
    by blast
  from p(1) run have eq: "ports = [20, 21, 22, 23, 24, 25, 26, 27]" by simp
  have u: "set [20, 21, 22, 23, 24, 25, 26, 27 :: int] = {24..27} \<union> {20..25}"
    by (auto simp flip: set_upto simp add: upto.simps)
  show ?thesis
    by (intro conjI h2 run p(2) [unfolded eq] p(3) [unfolded eq] u)
qed

section \<open>Which instances the analysis lists\<close>

text \<open>
  C10: the analysis returns when the instances can be listed and no group request is
  rejected. Whenever it returns, the instances it lists are, in order, the instances of
  the reservations that have a non-empty public address and the state name
  \<^verbatim>\<open>running\<close>; the summary counts every instance of the reservations as
  \<^verbatim>\<open>totalInstances\<close>, listed or not, and the listed ones as \<^verbatim>\<open>publicInstances\<close>.
\<close>

theorem public_instance_listing:
  "(describeInstances c = Inr reservations
      \<and> (\<forall>ids. \<exists>response. describeSecurityGroups c ids = Inr response)
      \<longrightarrow> (\<exists>result. PublicInstanceAnalyzer_analyze c = Inr result))
   \<and> (PublicInstanceAnalyzer_analyze c = Inr result \<longrightarrow>
        (\<exists>listed. describeInstances c = Inr listed
           \<and> map (\<lambda>info. (instanceId info, publicIp info)) (instances result) =
               map (\<lambda>inst. (orElse (InstanceId inst) ''unknown'', the (PublicIpAddress inst)))
                   (filter (\<lambda>inst. (\<exists>ip. PublicIpAddress inst = Some ip \<and> ip \<noteq> [])
                                    \<and> (\<exists>st. State inst = Some st \<and> Name st = Some ''running''))
                           (allInstancesOf listed))
           \<and> totalInstances (pi_summary result) = length (allInstancesOf listed)
           \<and> publicInstances (pi_summary result) =
               length (filter (\<lambda>inst. (\<exists>ip. PublicIpAddress inst = Some ip \<and> ip \<noteq> [])
                                    \<and> (\<exists>st. State inst = Some st \<and> Name st = Some ''running''))
                           (allInstancesOf listed))))"
proof (intro conjI impI)
  assume a: "describeInstances c = Inr reservations
      \<and> (\<forall>ids. \<exists>response. describeSecurityGroups c ids = Inr response)"
  then have "\<forall>ids. \<exists>response. describeSecurityGroups c ids = Inr response" by blast
  from instancesLoop_returns [OF this, of "allInstancesOf reservations" "[]"]
  obtain r where "instancesLoop c (allInstancesOf reservations) [] = Inr r" by blast
  with a show "\<exists>result. PublicInstanceAnalyzer_analyze c = Inr result"
    by (simp add: PublicInstanceAnalyzer_analyze_def Let_def)
next
  assume a: "PublicInstanceAnalyzer_analyze c = Inr result"
  let ?Q = "\<lambda>inst. (\<exists>ip. PublicIpAddress inst = Some ip \<and> ip \<noteq> [])
                    \<and> (\<exists>st. State inst = Some st \<and> Name st = Some ''running'')"
  have q: "\<And>inst. (truthy (PublicIpAddress inst) \<and> isRunning inst) = ?Q inst"
    by (auto simp: truthy_def isRunning_def split: option.splits)
  from a obtain listed where d: "describeInstances c = Inr listed"
    and l: "instancesLoop c (allInstancesOf listed) [] = Inr (instances result)"
    and t: "totalInstances (pi_summary result) = length (allInstancesOf listed)"
    and n: "publicInstances (pi_summary result) = length (instances result)"
    by (auto simp: PublicInstanceAnalyzer_analyze_def Let_def split: sum.splits)
  from instancesLoop_listing [OF l] have
    m: "map (\<lambda>info. (instanceId info, publicIp info)) (instances result) =
          map (\<lambda>inst. (orElse (InstanceId inst) ''unknown'', the (PublicIpAddress inst)))
              (filter ?Q (allInstancesOf listed))"
    by (simp add: q)
  from arg_cong [OF m, of length] n have
    "publicInstances (pi_summary result) = length (filter ?Q (allInstancesOf listed))"
    by simp
  with d m t show "\<exists>listed. describeInstances c = Inr listed
           \<and> map (\<lambda>info. (instanceId info, publicIp info)) (instances result) =
               map (\<lambda>inst. (orElse (InstanceId inst) ''unknown'', the (PublicIpAddress inst)))
                   (filter ?Q (allInstancesOf listed))
           \<and> totalInstances (pi_summary result) = length (allInstancesOf listed)
           \<and> publicInstances (pi_summary result) = length (filter ?Q (allInstancesOf listed))"
    by blast
qed


theorem public_instance_listing_witness:
  "describeInstances (clientOf [groupAttached]) =
     Inr (Some [\<lparr> Instances = Some [runningInstance, stoppedInstance] \<rparr>])
   \<and> allInstancesOf (Some [\<lparr> Instances = Some [runningInstance, stoppedInstance] \<rparr>])
       = [runningInstance, stoppedInstance]
   \<and> PublicIpAddress stoppedInstance = Some ''2.2.2.2''
   \<and> State stoppedInstance = Some \<lparr> Name = Some ''stopped'' \<rparr>
   \<and> (\<exists>result. PublicInstanceAnalyzer_analyze (clientOf [groupAttached]) = Inr result
         \<and> map (\<lambda>info. (instanceId info, publicIp info)) (instances result) =
             [(''i-running'', ''1.1.1.1'')]
         \<and> totalInstances (pi_summary result) = 2
         \<and> publicInstances (pi_summary result) = 1)"
proof -
  let ?c = "clientOf [groupAttached]"
  let ?rs = "Some [\<lparr> Instances = Some [runningInstance, stoppedInstance] \<rparr>]"
  have d: "describeInstances ?c = Inr ?rs" by (simp add: clientOf_def)
  have g: "\<forall>ids. \<exists>response. describeSecurityGroups ?c ids = Inr response"
    by (simp add: clientOf_def)
  have al: "allInstancesOf ?rs = [runningInstance, stoppedInstance]"
    by (simp add: allInstancesOf_def orElse_def)
  have s1: "PublicIpAddress stoppedInstance = Some ''2.2.2.2''"
    and s2: "State stoppedInstance = Some \<lparr> Name = Some ''stopped'' \<rparr>"
    by (simp_all add: stoppedInstance_def)
  have "\<exists>result. PublicInstanceAnalyzer_analyze ?c = Inr result"
    by (rule mp [OF conjunct1 [OF public_instance_listing [of ?c ?rs]]]) (intro conjI d g)
  then obtain result where r: "PublicInstanceAnalyzer_analyze ?c = Inr result" ..
  from mp [OF conjunct2 [OF public_instance_listing [of ?c ?rs result]] r]
  obtain listed where l: "describeInstances ?c = Inr listed"
    and m: "map (\<lambda>info. (instanceId info, publicIp info)) (instances result) =
               map (\<lambda>inst. (orElse (InstanceId inst) ''unknown'', the (PublicIpAddress inst)))
                   (filter (\<lambda>inst. (\<exists>ip. PublicIpAddress inst = Some ip \<and> ip \<noteq> [])
                                    \<and> (\<exists>st. State inst = Some st \<and> Name st = Some ''running''))
                           (allInstancesOf listed))"
    and t: "totalInstances (pi_summary result) = length (allInstancesOf listed)"
    and n: "publicInstances (pi_summary result) =
               length (filter (\<lambda>inst. (\<exists>ip. PublicIpAddress inst = Some ip \<and> ip \<noteq> [])
                                    \<and> (\<exists>st. State inst = Some st \<and> Name st = Some ''running''))
                           (allInstancesOf listed))"
    by (elim exE conjE)
  from l d have le: "listed = ?rs" by simp
  have f: "filter (\<lambda>inst. (\<exists>ip. PublicIpAddress inst = Some ip \<and> ip \<noteq> [])
                          \<and> (\<exists>st. State inst = Some st \<and> Name st = Some ''running''))
                  [runningInstance, stoppedInstance] = [runningInstance]"
    by (simp add: runningInstance_def stoppedInstance_def)
  have m': "map (\<lambda>info. (instanceId info, publicIp info)) (instances result) =
             [(''i-running'', ''1.1.1.1'')]"
    unfolding m le al f by (simp add: runningInstance_def orElse_def)
  have t': "totalInstances (pi_summary result) = 2" unfolding t le al by simp
  have n': "publicInstances (pi_summary result) = 1" unfolding n le al f by simp
  have "\<exists>result. PublicInstanceAnalyzer_analyze ?c = Inr result
         \<and> map (\<lambda>info. (instanceId info, publicIp info)) (instances result) =
             [(''i-running'', ''1.1.1.1'')]
         \<and> totalInstances (pi_summary result) = 2
         \<and> publicInstances (pi_summary result) = 1"
    by (intro exI [of _ result] conjI r m' t' n')
  then show ?thesis by (intro conjI d al s1 s2)
qed

section \<open>Loading a catalog that is missing or does not parse\<close>

lemma cache_hit:
  "cachedRules \<noteq> None \<Longrightarrow> \<not> truthy customPath \<Longrightarrow>
     loadSecurityRules env cachedRules customPath = (Inr cachedRules, cachedRules)"
  by (simp add: loadSecurityRules_def)







section \<open>The input member includeUnused\<close>

lemma parse_includeUnused_irrelevant:
  assumes "a \<in> {JUndefined, JBool True, JBool False}"
    and "b \<in> {JUndefined, JBool True, JBool False}"
  shows "map_sum id (\<lambda>v. (v_region v, v_groupIds v))
           (SecurityGroupAnalysisSchema_parse msgs (Object (obj\<lparr>includeUnused := a\<rparr>)))
       = map_sum id (\<lambda>v. (v_region v, v_groupIds v))
           (SecurityGroupAnalysisSchema_parse msgs (Object (obj\<lparr>includeUnused := b\<rparr>)))"
  using assms
  by (auto simp: SecurityGroupAnalysisSchema_parse_def parseBooleanDefaultTrue_def
      split: option.splits)

lemma execute_reads:
  "execute deps input =
     (case map_sum id (\<lambda>v. (v_region v, v_groupIds v))
             (SecurityGroupAnalysisSchema_parse (issueMessages deps) input) of
        Inl issues \<Rightarrow>
          Inl (Error (''Input validation failed: '' @ joinStrings '', '' issues))
      | Inr (r, g) \<Rightarrow>
          (case SecurityGroupAnalyzer_analyze (analyzer deps) (getEC2Client (awsClient deps)) g of
             Inl e \<Rightarrow>
               (case e of
                  Error m \<Rightarrow> Inl (Error (''Security group analysis failed: '' @ m))
                | NonError \<Rightarrow>
                    Inl (Error ''An unexpected error occurred during security group analysis''))
           | Inr analysisResult \<Rightarrow>
               Inr \<lparr> analysisType = ''security-group'',
                     out_region = orElse r (getRegion (awsClient deps)),
                     timestamp = now deps,
                     out_summary =
                       SecurityGroupSummary.extend (summary analysisResult)
                         (ToolSummary.fields
                            \<lparr> high = highRiskFindings (summary analysisResult),
                              medium = mediumRiskFindings (summary analysisResult),
                              low = lowRiskFindings (summary analysisResult) \<rparr>),
                     out_findings = findings analysisResult,
                     out_recommendations =
                       SecurityGroupTool_generateRecommendations (findings analysisResult) \<rparr>))"
  by (cases "SecurityGroupAnalysisSchema_parse (issueMessages deps) input")
     (simp_all add: execute_def Let_def)

lemma execute_findings:
  assumes "execute deps input = Inr out"
  shows "\<exists>ids response unused.
           describeSecurityGroups (getEC2Client (awsClient deps)) ids = Inr response
           \<and> findUnusedSecurityGroups (analyzer deps) (getEC2Client (awsClient deps))
                 (orElse response []) = Inr unused
           \<and> out_findings out =
               concat (map (analyzeSecurityGroup (analyzer deps)) (orElse response [])) @ unused"
proof -
  let ?client = "getEC2Client (awsClient deps)"
  from assms obtain v where
    v: "SecurityGroupAnalysisSchema_parse (issueMessages deps) input = Inr v"
    by (auto simp: execute_def split: sum.splits)
  from assms v obtain res where
    res: "SecurityGroupAnalyzer_analyze (analyzer deps) ?client (v_groupIds v) = Inr res"
    and f: "out_findings out = findings res"
    by (auto simp: execute_def Let_def split: sum.splits exn.splits)
  from res obtain response unused where
    r: "describeSecurityGroups ?client (v_groupIds v) = Inr response"
    and u: "findUnusedSecurityGroups (analyzer deps) ?client (orElse response []) = Inr unused"
    and g: "findings res =
              concat (map (analyzeSecurityGroup (analyzer deps)) (orElse response [])) @ unused"
    by (auto simp: SecurityGroupAnalyzer_analyze_def Let_def split: sum.splits)
  show ?thesis
    by (intro exI [of _ "v_groupIds v"] exI [of _ response] exI [of _ unused] conjI r u
        trans [OF f g])
qed


text \<open>
  C9: two inputs of the tool that differ only in \<^verbatim>\<open>includeUnused\<close>, each of them
  \<^verbatim>\<open>true\<close>, \<^verbatim>\<open>false\<close> or absent, give the same result: the same error, or the same
  output with the same summary, findings and recommendations. With \<^verbatim>\<open>includeUnused\<close>
  false, the findings of an output still end with the findings of the unused-group
  detection.
\<close>

theorem includeUnused_ignored:
  assumes "a \<in> {JUndefined, JBool True, JBool False}"
    and "b \<in> {JUndefined, JBool True, JBool False}"
  shows "execute deps (Object (obj\<lparr>includeUnused := a\<rparr>))
           = execute deps (Object (obj\<lparr>includeUnused := b\<rparr>))
       \<and> (\<forall>out. execute deps (Object (obj\<lparr>includeUnused := JBool False\<rparr>)) = Inr out \<longrightarrow>
             (\<exists>ids response unused.
                describeSecurityGroups (getEC2Client (awsClient deps)) ids = Inr response
                \<and> findUnusedSecurityGroups (analyzer deps) (getEC2Client (awsClient deps))
                      (orElse response []) = Inr unused
                \<and> out_findings out =
                    concat (map (analyzeSecurityGroup (analyzer deps)) (orElse response []))
                    @ unused))"
proof (intro conjI allI impI)
  show "execute deps (Object (obj\<lparr>includeUnused := a\<rparr>))
           = execute deps (Object (obj\<lparr>includeUnused := b\<rparr>))"
    by (simp only: execute_reads parse_includeUnused_irrelevant [OF assms])
next
  fix out
  assume "execute deps (Object (obj\<lparr>includeUnused := JBool False\<rparr>)) = Inr out"
  then show "\<exists>ids response unused.
                describeSecurityGroups (getEC2Client (awsClient deps)) ids = Inr response
                \<and> findUnusedSecurityGroups (analyzer deps) (getEC2Client (awsClient deps))
                      (orElse response []) = Inr unused
                \<and> out_findings out =
                    concat (map (analyzeSecurityGroup (analyzer deps)) (orElse response []))
                    @ unused"
    by (rule execute_findings)
qed

theorem includeUnused_ignored_witness:
  "execute testDeps (Object (emptyInput\<lparr>includeUnused := JBool True\<rparr>))
     = execute testDeps (Object (emptyInput\<lparr>includeUnused := JBool False\<rparr>))
   \<and> execute testDeps (Object (emptyInput\<lparr>includeUnused := JUndefined\<rparr>))
     = execute testDeps (Object (emptyInput\<lparr>includeUnused := JBool False\<rparr>))
   \<and> execute testDeps (Object (emptyInput\<lparr>includeUnused := JBool False\<rparr>)) =
     Inr \<lparr> analysisType = ''security-group'', out_region = ''us-east-1'',
           timestamp = ''2024-01-15T10:30:00.000Z'',
           out_summary =
             \<lparr> totalGroups = 2, highRiskFindings = 1, mediumRiskFindings = 0,
               lowRiskFindings = 1,
               riskDistribution = \<lparr> high = 1, medium = 0, low = 1 \<rparr> \<rparr>,
           out_findings =
             [\<lparr> securityGroupId = ''sg-1'', securityGroupName = ''test-sg'',
                ruleId = ''sg-ssh-world'', f_severity = HIGH,
                f_description = ''SSH port 22 is accessible from anywhere'',
                f_recommendation = ''Restrict SSH access'',
                affectedRule = Some \<lparr> ar_port = PortNumber 22, ar_protocol = ''tcp'',
                                      ar_source = ''::/0'' \<rparr> \<rparr>,
              \<lparr> securityGroupId = ''sg-2'', securityGroupName = ''db'',
                ruleId = ''sg-unused'', f_severity = LOW,
                f_description = ''Security group is not attached'',
                f_recommendation = ''Remove unused'', affectedRule = None \<rparr>],
           out_recommendations =
             [''Address 1 HIGH severity findings immediately'',
              ''Implement principle of least privilege for security group rules'',
              ''Use specific IP ranges instead of 0.0.0.0/0 where possible'',
              ''Regular security group audits should be performed'',
              ''Consider using AWS Config for continuous compliance monitoring'',
              ''Implement Infrastructure as Code (IaC) for consistent security group management''] \<rparr>"
proof -
  have t: "JBool True \<in> {JUndefined, JBool True, JBool False}"
    and f: "JBool False \<in> {JUndefined, JBool True, JBool False}"
    and u: "JUndefined \<in> {JUndefined, JBool True, JBool False}"
    by simp_all
  have ex: "execute testDeps (Object (emptyInput\<lparr>includeUnused := JBool False\<rparr>)) =
     Inr \<lparr> analysisType = ''security-group'', out_region = ''us-east-1'',
           timestamp = ''2024-01-15T10:30:00.000Z'',
           out_summary =
             \<lparr> totalGroups = 2, highRiskFindings = 1, mediumRiskFindings = 0,
               lowRiskFindings = 1,
               riskDistribution = \<lparr> high = 1, medium = 0, low = 1 \<rparr> \<rparr>,
           out_findings =
             [\<lparr> securityGroupId = ''sg-1'', securityGroupName = ''test-sg'',
                ruleId = ''sg-ssh-world'', f_severity = HIGH,
                f_description = ''SSH port 22 is accessible from anywhere'',
                f_recommendation = ''Restrict SSH access'',
                affectedRule = Some \<lparr> ar_port = PortNumber 22, ar_protocol = ''tcp'',
                                      ar_source = ''::/0'' \<rparr> \<rparr>,
              \<lparr> securityGroupId = ''sg-2'', securityGroupName = ''db'',
                ruleId = ''sg-unused'', f_severity = LOW,
                f_description = ''Security group is not attached'',
                f_recommendation = ''Remove unused'', affectedRule = None \<rparr>],
           out_recommendations =
             [''Address 1 HIGH severity findings immediately'',
              ''Implement principle of least privilege for security group rules'',
              ''Use specific IP ranges instead of 0.0.0.0/0 where possible'',
              ''Regular security group audits should be performed'',
              ''Consider using AWS Config for continuous compliance monitoring'',
              ''Implement Infrastructure as Code (IaC) for consistent security group management''] \<rparr>"
    by code_simp
  show ?thesis
    by (intro conjI conjunct1 [OF includeUnused_ignored [OF t f]]
        conjunct1 [OF includeUnused_ignored [OF u f]] ex)
qed

end
